theory Spec2Isabelle
  imports Complex_Main
begin

section \<open>Data model\<close>

text \<open>
  The embedding follows \<^verbatim>\<open>src/App.tsx\<close>. JavaScript numbers that hold coordinates, angles
  and timers are modelled as \<^typ>\<open>real\<close> (exact arithmetic in place of IEEE doubles);
  numbers that only ever hold integers (ids, score, stolen count) are \<^typ>\<open>int\<close>.
  A position \<^verbatim>\<open>[x, y, z]\<close> is a triple; \<open>at0\<close>, \<open>at1\<close>, \<open>at2\<close> read
  \<^verbatim>\<open>p[0]\<close>, \<^verbatim>\<open>p[1]\<close>, \<^verbatim>\<open>p[2]\<close>.
\<close>

type_synonym vec3 = "real \<times> real \<times> real"

fun at0 :: "vec3 \<Rightarrow> real" where
  "at0 (a, b, c) = a"

fun at1 :: "vec3 \<Rightarrow> real" where
  "at1 (a, b, c) = b"

fun at2 :: "vec3 \<Rightarrow> real" where
  "at2 (a, b, c) = c"

record item_type =
  type_name :: string
  type_color :: string
  type_scale :: vec3

record shelf =
  shelf_x :: real
  shelf_z :: real

definition ITEM_TYPES :: "item_type list" where
  "ITEM_TYPES =
    [\<lparr>type_name = ''Cereal'', type_color = ''#e3c04d'', type_scale = (0.25, 0.35, 0.2)\<rparr>,
     \<lparr>type_name = ''Milk'', type_color = ''#f0f0f0'', type_scale = (0.2, 0.3, 0.2)\<rparr>,
     \<lparr>type_name = ''Soup'', type_color = ''#d35400'', type_scale = (0.2, 0.25, 0.2)\<rparr>,
     \<lparr>type_name = ''Pasta'', type_color = ''#f39c12'', type_scale = (0.25, 0.3, 0.15)\<rparr>,
     \<lparr>type_name = ''Beans'', type_color = ''#27ae60'', type_scale = (0.2, 0.25, 0.2)\<rparr>,
     \<lparr>type_name = ''Juice'', type_color = ''#e74c3c'', type_scale = (0.2, 0.35, 0.2)\<rparr>]"

definition SHELF_POSITIONS :: "shelf list" where
  "SHELF_POSITIONS =
    [\<lparr>shelf_x = -1.5, shelf_z = -3\<rparr>, \<lparr>shelf_x = -1.5, shelf_z = -1\<rparr>,
     \<lparr>shelf_x = -1.5, shelf_z = 1\<rparr>, \<lparr>shelf_x = -1.5, shelf_z = 3\<rparr>,
     \<lparr>shelf_x = 1.5, shelf_z = -3\<rparr>, \<lparr>shelf_x = 1.5, shelf_z = -1\<rparr>,
     \<lparr>shelf_x = 1.5, shelf_z = 1\<rparr>, \<lparr>shelf_x = 1.5, shelf_z = 3\<rparr>]"

record item =
  item_id :: int
  itype :: item_type
  position :: vec3
  onShelf :: bool
  targetShelf :: shelf

record shelf_effect =
  eff_position :: shelf
  eff_itemType :: item_type
  eff_createdAt :: int

datatype thief_state = Entering | Searching | Stealing | Escaping | Waiting | Fleeing

text \<open>
  One record holds everything the simulation mutates:
  \<^item> the React context of \<^verbatim>\<open>GameStateProvider\<close> (\<open>items\<close> \<dots> \<open>stolenItems\<close>);
  \<^item> the module-level object \<^verbatim>\<open>gameState\<close> (fields \<open>gs_\<dots>\<close>);
  \<^item> the state and refs of the \<^verbatim>\<open>Character\<close> component (fields \<open>ch_\<dots>\<close>);
  \<^item> the state of the \<^verbatim>\<open>Thief\<close> component (\<open>th_\<dots>\<close>, \<open>thiefState\<close> \<dots>);
  \<^item> \<open>rngCalls\<close>, the number of \<^verbatim>\<open>Math.random()\<close> calls made so far. The random source
    itself is a parameter \<open>rnd\<close>: call number \<open>k\<close> returns \<open>rnd k\<close>.
\<close>

record world =
  items :: "item list"
  score :: int
  playerHoldingItem :: "item option"
  nextItemId :: int
  stolenItems :: int
  gs_items :: "item list"
  gs_nextItemId :: int
  gs_playerHoldingItem :: "item option"
  gs_characterPosition :: "vec3 option"
  gs_highlightedShelf :: "shelf option"
  gs_thiefTargetItem :: "int option"
  gs_shelfEffects :: "shelf_effect list"
  gs_isPlacingItem :: bool
  ch_position :: vec3
  ch_rotation :: real
  ch_targetRotation :: real
  ch_walkingTime :: real
  ch_idleTime :: real
  ch_isPlacingItem :: bool
  th_position :: vec3
  th_rotation :: real
  th_targetPosition :: vec3
  thiefState :: thief_state
  targetItem :: "item option"
  thiefHoldingItem :: "item option"
  th_walkingTime :: real
  waitTimer :: real
  fleeingCooldown :: real
  rngCalls :: nat

section \<open>Spatial utilities\<close>

text \<open>\<^verbatim>\<open>isNearItem\<close> (lines 179-187): pickup radius 0.5, strict comparison.\<close>

definition isNearItem :: "vec3 \<Rightarrow> item \<Rightarrow> bool" where
  "isNearItem characterPosition it =
    (let dx = at0 characterPosition - at0 (position it);
         dz = at2 characterPosition - at2 (position it);
         distance = sqrt (dx * dx + dz * dz)
     in distance < 0.5)"

text \<open>
  \<^verbatim>\<open>isNearShelf\<close> (lines 190-218). The optional argument is an \<open>option\<close>; with a shelf
  given only that shelf is tested, otherwise the first shelf of the static list within
  the placement radius 0.8 is returned.
\<close>

fun nearShelfLoop :: "shelf list \<Rightarrow> vec3 \<Rightarrow> shelf option" where
  "nearShelfLoop [] characterPosition = None"
| "nearShelfLoop (sh # rest) characterPosition =
    (let dx = at0 characterPosition - shelf_x sh;
         dz = at2 characterPosition - shelf_z sh;
         distance = sqrt (dx * dx + dz * dz)
     in if distance < 0.8 then Some sh else nearShelfLoop rest characterPosition)"

fun isNearShelf :: "vec3 \<Rightarrow> shelf option \<Rightarrow> shelf option" where
  "isNearShelf characterPosition (Some target) =
    (let dx = at0 characterPosition - shelf_x target;
         dz = at2 characterPosition - shelf_z target;
         distance = sqrt (dx * dx + dz * dz)
     in if distance < 0.8 then Some target else None)"
| "isNearShelf characterPosition None = nearShelfLoop SHELF_POSITIONS characterPosition"

text \<open>
  \<^verbatim>\<open>checkCollisionWithShelves\<close> (lines 590-605): the threshold is
  \<^verbatim>\<open>SHELF_SIZE.width / 2 + CHARACTER_SIZE.radius\<close>.
\<close>

definition SHELF_SIZE_width :: real where
  "SHELF_SIZE_width = 0.7"

definition CHARACTER_SIZE_radius :: real where
  "CHARACTER_SIZE_radius = 0.2"

fun collisionLoop :: "shelf list \<Rightarrow> real \<Rightarrow> real \<Rightarrow> bool" where
  "collisionLoop [] x z = False"
| "collisionLoop (sh # rest) x z =
    (let dx = x - shelf_x sh;
         dz = z - shelf_z sh;
         distance = sqrt (dx * dx + dz * dz)
     in if distance < SHELF_SIZE_width / 2 + CHARACTER_SIZE_radius then True
        else collisionLoop rest x z)"

definition checkCollisionWithShelves :: "real \<Rightarrow> real \<Rightarrow> bool" where
  "checkCollisionWithShelves x z = collisionLoop SHELF_POSITIONS x z"

section \<open>Item spawning\<close>

text \<open>
  The position search (lines 228-238, repeated verbatim at 725-735 and 1064-1074):
  a \<^verbatim>\<open>do \<dots> while\<close> loop with \<^verbatim>\<open>bounds = 4\<close> and \<^verbatim>\<open>maxAttempts = 20\<close>.
  \<open>k\<close> is the number of random calls made before the iteration, \<open>attempts\<close> the counter
  before it; the result is the accepted point and the number of random calls after it.
\<close>

function samplePosition :: "(nat \<Rightarrow> real) \<Rightarrow> nat \<Rightarrow> nat \<Rightarrow> real \<times> real \<times> nat" where
  "samplePosition rnd k attempts =
    (if attempts + 1 \<ge> 20
     then (rnd k * 4 * 2 - 4, rnd (k + 1) * 4 * 2 - 4, k + 2)
     else if checkCollisionWithShelves (rnd k * 4 * 2 - 4) (rnd (k + 1) * 4 * 2 - 4)
     then samplePosition rnd (k + 2) (attempts + 1)
     else (rnd k * 4 * 2 - 4, rnd (k + 1) * 4 * 2 - 4, k + 2))"
  by pat_completeness auto
termination
  by (relation "measure (\<lambda>(rnd, k, attempts). 20 - attempts)") auto

text \<open>
  \<^verbatim>\<open>XS[Math.floor(Math.random() * XS.length)]\<close>: \<^verbatim>\<open>Math.random()\<close> returns a number in
  \<open>[0, 1)\<close>, so the index is in range; the model reads the list at the same index.
\<close>

definition randomElement :: "'a list \<Rightarrow> real \<Rightarrow> 'a" where
  "randomElement xs r = xs ! nat \<lfloor>r * real (length xs)\<rfloor>"

text \<open>
  The item built after the position search (lines 241-252, 738-747, 1077-1086): target
  shelf first, then type, from the next two random calls.
\<close>

definition makeItem :: "(nat \<Rightarrow> real) \<Rightarrow> nat \<Rightarrow> int \<Rightarrow> item \<times> nat" where
  "makeItem rnd k0 newId =
    (case samplePosition rnd k0 0 of
       (x, z, k) \<Rightarrow>
         (\<lparr>item_id = newId,
           itype = randomElement ITEM_TYPES (rnd (k + 1)),
           position = (x, 0.2, z),
           onShelf = False,
           targetShelf = randomElement SHELF_POSITIONS (rnd k)\<rparr>,
          k + 2))"

text \<open>\<^verbatim>\<open>spawnRandomItem\<close> (lines 221-259) works on the module-level mirror.\<close>

definition spawnRandomItem :: "(nat \<Rightarrow> real) \<Rightarrow> world \<Rightarrow> item \<times> world" where
  "spawnRandomItem rnd s =
    (case makeItem rnd (rngCalls s) (gs_nextItemId s) of
       (newItem, k) \<Rightarrow>
         (newItem,
          s\<lparr>gs_nextItemId := gs_nextItemId s + 1,
            gs_items := gs_items s @ [newItem],
            rngCalls := k\<rparr>))"

section \<open>Player interaction\<close>

text \<open>
  \<^verbatim>\<open>createShelfPlacementEffect\<close> (lines 792-814) reads the module-level
  \<^verbatim>\<open>gameState.playerHoldingItem\<close>, not the context value. \<open>now\<close> is \<^verbatim>\<open>Date.now()\<close>.
  The two-second timer that drops the oldest effect is the event \<open>shelfEffectTimeout\<close>.
\<close>

definition createShelfPlacementEffect :: "int \<Rightarrow> shelf \<Rightarrow> world \<Rightarrow> world" where
  "createShelfPlacementEffect now shelfPosition s =
    (case gs_playerHoldingItem s of
       Some held \<Rightarrow>
         s\<lparr>gs_shelfEffects := gs_shelfEffects s @
             [\<lparr>eff_position = shelfPosition, eff_itemType = itype held, eff_createdAt = now\<rparr>]\<rparr>
     | None \<Rightarrow> s)"

definition shelfEffectTimeout :: "world \<Rightarrow> world" where
  "shelfEffectTimeout s =
    (if length (gs_shelfEffects s) > 0 then s\<lparr>gs_shelfEffects := tl (gs_shelfEffects s)\<rparr> else s)"

text \<open>
  \<^verbatim>\<open>handleItemInteraction\<close> (lines 691-780). The callback reads the values of its last
  render (\<open>s\<close>) and queues its updates, which React applies in order; the result is the
  state after they are applied. The 100 ms timer that clears the placing flags is the
  event \<open>placingGuardTimeout\<close>.
\<close>

definition handleItemInteraction :: "(nat \<Rightarrow> real) \<Rightarrow> int \<Rightarrow> world \<Rightarrow> world" where
  "handleItemInteraction rnd now s =
    (case playerHoldingItem s of
       Some held \<Rightarrow>
         (case isNearShelf (ch_position s) (Some (targetShelf held)) of
            Some nearbyShelf \<Rightarrow>
              (let s1 = s\<lparr>ch_isPlacingItem := True, gs_isPlacingItem := True\<rparr>;
                   placedItem = held;
                   s2 = s1\<lparr>playerHoldingItem := None, gs_highlightedShelf := None\<rparr>;
                   s3 = s2\<lparr>items := filter (\<lambda>it. item_id it \<noteq> item_id placedItem) (items s2)\<rparr>;
                   s4 = createShelfPlacementEffect now nearbyShelf s3;
                   s5 = s4\<lparr>score := score s4 + 10\<rparr>
               in case makeItem rnd (rngCalls s5) (nextItemId s) of
                    (newItem, k) \<Rightarrow>
                      s5\<lparr>items := items s5 @ [newItem],
                         nextItemId := nextItemId s5 + 1,
                         rngCalls := k\<rparr>)
          | None \<Rightarrow> s)
     | None \<Rightarrow>
         (case find (\<lambda>it. \<not> onShelf it \<and> isNearItem (ch_position s) it) (items s) of
            Some itemToPickup \<Rightarrow>
              s\<lparr>playerHoldingItem := Some itemToPickup,
                gs_highlightedShelf := Some (targetShelf itemToPickup)\<rparr>
          | None \<Rightarrow> s))"

definition placingGuardTimeout :: "world \<Rightarrow> world" where
  "placingGuardTimeout s = s\<lparr>ch_isPlacingItem := False, gs_isPlacingItem := False\<rparr>"

section \<open>Player movement\<close>

text \<open>
  \<^verbatim>\<open>Math.atan2(y, x)\<close> and the remainder operator \<^verbatim>\<open>a % b\<close> of JavaScript (the
  quotient is truncated toward zero), on real numbers.
\<close>

definition atan2 :: "real \<Rightarrow> real \<Rightarrow> real" where
  "atan2 y x =
    (if x > 0 then arctan (y / x)
     else if x < 0 \<and> y \<ge> 0 then arctan (y / x) + pi
     else if x < 0 \<and> y < 0 then arctan (y / x) - pi
     else if y > 0 then pi / 2
     else if y < 0 then - pi / 2
     else 0)"

definition jsRemainder :: "real \<Rightarrow> real \<Rightarrow> real" where
  "jsRemainder a b =
    a - b * of_int (if a / b \<ge> 0 then \<lfloor>a / b\<rfloor> else \<lceil>a / b\<rceil>)"

text \<open>The movement angle relative to the camera (lines 873-893).\<close>

definition moveDirection :: "bool \<Rightarrow> bool \<Rightarrow> bool \<Rightarrow> bool \<Rightarrow> real" where
  "moveDirection moveForward moveBackward moveLeft moveRight =
    (let a1 = (if moveForward then 0 else 0);
         a2 = (if moveBackward then pi else a1);
         a3 = (if moveLeft then pi / 2 else a2);
         a4 = (if moveRight then - pi / 2 else a3)
     in if (moveForward \<or> moveBackward) \<and> (moveLeft \<or> moveRight)
        then (let d1 = (if moveForward \<and> moveLeft then pi / 4 else a4);
                  d2 = (if moveForward \<and> moveRight then - pi / 4 else d1);
                  d3 = (if moveBackward \<and> moveLeft then (pi * 3) / 4 else d2);
                  d4 = (if moveBackward \<and> moveRight then (- pi * 3) / 4 else d3)
              in d4)
        else a4)"

text \<open>The two \<^verbatim>\<open>while\<close> loops that bring an angle difference into \<open>[-\<pi>, \<pi>]\<close> (lines 936-937).\<close>

function wrapDown :: "real \<Rightarrow> real" where
  "wrapDown d = (if d > pi then wrapDown (d - pi * 2) else d)"
  by pat_completeness auto
termination
proof (relation "measure (\<lambda>d. nat \<lceil>d / (pi * 2)\<rceil>)")
  show "wf (measure (\<lambda>d. nat \<lceil>d / (pi * 2)\<rceil>))"
    by simp
next
  fix d :: real
  assume d: "pi < d"
  have eq: "(d - pi * 2) / (pi * 2) = d / (pi * 2) - 1"
    using pi_gt_zero by (simp add: field_simps)
  have "d > 0"
    using d pi_gt_zero by linarith
  then have "d / (pi * 2) > 0"
    using pi_gt_zero by simp
  then have "\<lceil>d / (pi * 2)\<rceil> \<ge> 1"
    by linarith
  then have "nat \<lceil>(d - pi * 2) / (pi * 2)\<rceil> < nat \<lceil>d / (pi * 2)\<rceil>"
    by (simp only: eq ceiling_diff_one)
  then show "(d - pi * 2, d) \<in> measure (\<lambda>d. nat \<lceil>d / (pi * 2)\<rceil>)"
    by (simp only: in_measure)
qed

function wrapUp :: "real \<Rightarrow> real" where
  "wrapUp d = (if d < - pi then wrapUp (d + pi * 2) else d)"
  by pat_completeness auto
termination
proof (relation "measure (\<lambda>d. nat \<lceil>- d / (pi * 2)\<rceil>)")
  show "wf (measure (\<lambda>d. nat \<lceil>- d / (pi * 2)\<rceil>))"
    by simp
next
  fix d :: real
  assume d: "d < - pi"
  have eq: "- (d + pi * 2) / (pi * 2) = - d / (pi * 2) - 1"
    using pi_gt_zero by (simp add: field_simps)
  have "- d > 0"
    using d pi_gt_zero by linarith
  then have "- d / (pi * 2) > 0"
    using pi_gt_zero by (simp add: field_simps)
  then have "\<lceil>- d / (pi * 2)\<rceil> \<ge> 1"
    by linarith
  then have "nat \<lceil>- (d + pi * 2) / (pi * 2)\<rceil> < nat \<lceil>- d / (pi * 2)\<rceil>"
    by (simp only: eq ceiling_diff_one)
  then show "(d + pi * 2, d) \<in> measure (\<lambda>d. nat \<lceil>- d / (pi * 2)\<rceil>)"
    by (simp only: in_measure)
qed

text \<open>
  The frame callback of \<^verbatim>\<open>Character\<close> (lines 857-1002), in four parts. Inputs: the key
  buffer \<^verbatim>\<open>keysPressed.current\<close> (an absent key reads as false), the camera's \<open>x\<close> and
  \<open>z\<close>, and the frame's \<open>delta\<close>. The scene object behind \<^verbatim>\<open>characterRef\<close> is taken as
  mounted; writes to it are rendering only and are not part of the state. As in the
  source, every part reads the values of the last render (\<open>s\<close>) and queues its updates
  (on \<open>acc\<close>).
\<close>

text \<open>Lines 860-897: whether the player moves, and the movement angle.\<close>

definition frameMoving :: "(string \<Rightarrow> bool) \<Rightarrow> bool" where
  "frameMoving keysPressed =
    (let moveForward = (keysPressed ''w'' \<or> keysPressed ''arrowup'');
         moveBackward = (keysPressed ''s'' \<or> keysPressed ''arrowdown'');
         moveLeft = (keysPressed ''a'' \<or> keysPressed ''arrowleft'');
         moveRight = (keysPressed ''d'' \<or> keysPressed ''arrowright'')
     in moveForward \<or> moveBackward \<or> moveLeft \<or> moveRight)"

definition frameMoveAngle :: "(string \<Rightarrow> bool) \<Rightarrow> real \<times> real \<Rightarrow> real" where
  "frameMoveAngle keysPressed camera =
    (let moveForward = (keysPressed ''w'' \<or> keysPressed ''arrowup'');
         moveBackward = (keysPressed ''s'' \<or> keysPressed ''arrowdown'');
         moveLeft = (keysPressed ''a'' \<or> keysPressed ''arrowleft'');
         moveRight = (keysPressed ''d'' \<or> keysPressed ''arrowright'');
         cameraAngle = atan2 (fst camera) (snd camera)
     in if moveForward \<or> moveBackward \<or> moveLeft \<or> moveRight
        then jsRemainder
               (moveDirection moveForward moveBackward moveLeft moveRight + cameraAngle + pi)
               (pi * 2)
        else 0)"

text \<open>Lines 913-942: the new position and the target rotation.\<close>

definition movePlayer :: "bool \<Rightarrow> real \<Rightarrow> world \<Rightarrow> world \<Rightarrow> world" where
  "movePlayer moving moveAngle s acc =
    (if moving
     then (let newX = at0 (ch_position s) + sin moveAngle * 0.035;
               newZ = at2 (ch_position s) + cos moveAngle * 0.035;
               acc1 = (if \<not> checkCollisionWithShelves newX newZ
                       then acc\<lparr>ch_position :=
                                 (max (- 4.5) (min 4.5 newX), 0.15, max (- 4.5) (min 4.5 newZ))\<rparr>
                       else acc)
           in acc1\<lparr>ch_targetRotation :=
                     ch_rotation s + wrapUp (wrapDown (moveAngle - ch_rotation s))\<rparr>)
     else acc)"

text \<open>Lines 958-969: the smoothed rotation.\<close>

definition turnPlayer :: "world \<Rightarrow> real" where
  "turnPlayer s =
    (let rotationDiff0 = ch_targetRotation s - ch_rotation s;
         rotationDiff1 = (if rotationDiff0 > pi then rotationDiff0 - pi * 2 else rotationDiff0);
         rotationDiff = (if rotationDiff1 < - pi then rotationDiff1 + pi * 2 else rotationDiff1)
     in ch_rotation s + rotationDiff * 0.15)"

text \<open>Lines 971-1001: the held item follows the player.\<close>

definition heldItemFollow :: "real \<Rightarrow> real \<Rightarrow> world \<Rightarrow> world \<Rightarrow> world" where
  "heldItemFollow newRotation finalY s acc =
    (case playerHoldingItem s of
       Some held \<Rightarrow>
         if \<not> ch_isPlacingItem s
         then (let newItemPosition =
                     (at0 (ch_position s) + sin newRotation * 0.4,
                      finalY + 0.1,
                      at2 (ch_position s) + cos newRotation * 0.4);
                   positionChanged =
                     (\<bar>at0 (position held) - at0 newItemPosition\<bar> > 0.01 \<or>
                      \<bar>at1 (position held) - at1 newItemPosition\<bar> > 0.01 \<or>
                      \<bar>at2 (position held) - at2 newItemPosition\<bar> > 0.01)
               in if positionChanged
                  then acc\<lparr>playerHoldingItem := Some (held\<lparr>position := newItemPosition\<rparr>)\<rparr>
                  else acc)
         else acc
     | None \<Rightarrow> acc)"

definition characterFrame :: "(string \<Rightarrow> bool) \<Rightarrow> real \<times> real \<Rightarrow> real \<Rightarrow> world \<Rightarrow> world" where
  "characterFrame keysPressed camera delta s =
    (let moving = frameMoving keysPressed;
         moveAngle = frameMoveAngle keysPressed camera;
         newWalkingTime = (if moving then ch_walkingTime s + delta * 10 else 0);
         newIdleTime = ch_idleTime s + delta * 2;
         s1 = s\<lparr>ch_walkingTime := newWalkingTime, ch_idleTime := newIdleTime\<rparr>;
         s2 = movePlayer moving moveAngle s s1;
         walkingOffset = (if moving then sin newWalkingTime * 0.08 else 0);
         idleOffset = sin newIdleTime * 0.02;
         finalY = 0.15 + \<bar>walkingOffset\<bar> + \<bar>idleOffset\<bar>;
         newRotation = turnPlayer s;
         s3 = s2\<lparr>ch_rotation := newRotation\<rparr>
     in heldItemFollow newRotation finalY s s3)"

section \<open>Thief\<close>

text \<open>Constants of the \<^verbatim>\<open>Thief\<close> component (lines 1262-1293).\<close>

definition th_size :: real where
  "th_size = 10"

definition th_spacing :: real where
  "th_spacing = 1"

definition th_offset :: real where
  "th_offset = (th_size * th_spacing) / 2 - th_spacing / 2"

definition doorPosition :: vec3 where
  "doorPosition = (- th_offset - th_spacing, 0.15, 3 - th_offset)"

definition storeEntryPoint :: vec3 where
  "storeEntryPoint = (- th_offset, 0.15, 3 - th_offset)"

definition thiefSpeed :: real where
  "thiefSpeed = 0.025"

definition fleeingSpeed :: real where
  "fleeingSpeed = 0.07"

definition playerCollisionRadius :: real where
  "playerCollisionRadius = 0.7"

text \<open>
  The callbacks read the values of their last render and queue updates; a later update
  of a field replaces an earlier one, and an updater function receives the queued value.
  In the functions below \<open>s\<close> is the state the callback reads and \<open>acc\<close> the state with
  the updates queued so far.
\<close>

text \<open>The capture check (lines 1333-1374).\<close>

definition captureCheck :: "world \<Rightarrow> world \<Rightarrow> world" where
  "captureCheck s acc =
    (case gs_characterPosition s of
       Some characterPosition \<Rightarrow>
         if thiefState s \<noteq> Waiting \<and> thiefState s \<noteq> Fleeing
         then (let dx = at0 (th_position s) - at0 characterPosition;
                   dz = at2 (th_position s) - at2 characterPosition;
                   distanceToPlayer = sqrt (dx * dx + dz * dz)
               in if distanceToPlayer < playerCollisionRadius
                  then (let acc1 =
                              (case thiefHoldingItem s of
                                 Some held \<Rightarrow>
                                   (let droppedItem = held\<lparr>position := th_position s\<rparr>
                                    in acc\<lparr>items := items acc @ [droppedItem],
                                          thiefHoldingItem := None,
                                          stolenItems := max 0 (stolenItems acc - 1)\<rparr>)
                               | None \<Rightarrow> acc)
                        in acc1\<lparr>thiefState := Fleeing,
                                th_targetPosition := doorPosition,
                                fleeingCooldown := 5\<rparr>)
                  else acc)
         else acc
     | None \<Rightarrow> acc)"

text \<open>
  The search for the closest item (lines 1429-1441): \<^verbatim>\<open>closestDistance\<close> starts at
  \<^verbatim>\<open>Infinity\<close>, here \<open>None\<close>, below which every distance lies.
\<close>

fun closestLoop :: "item list \<Rightarrow> vec3 \<Rightarrow> item \<Rightarrow> real option \<Rightarrow> item" where
  "closestLoop [] pos closestItem closestDistance = closestItem"
| "closestLoop (it # rest) pos closestItem closestDistance =
    (let dx = at0 pos - at0 (position it);
         dz = at2 pos - at2 (position it);
         distance = sqrt (dx * dx + dz * dz)
     in if (case closestDistance of None \<Rightarrow> True | Some c \<Rightarrow> distance < c)
        then closestLoop rest pos it (Some distance)
        else closestLoop rest pos closestItem closestDistance)"

text \<open>The \<^verbatim>\<open>searching\<close> case (lines 1417-1484).\<close>

definition thiefSearching :: "world \<Rightarrow> world \<Rightarrow> world" where
  "thiefSearching s acc =
    (case targetItem s of
       None \<Rightarrow>
         (let availableItems =
                filter (\<lambda>it. \<not> onShelf it \<and>
                             (case playerHoldingItem s of
                                None \<Rightarrow> True
                              | Some held \<Rightarrow> item_id it \<noteq> item_id held))
                       (items s)
          in case availableItems of
               first # rest \<Rightarrow>
                 (let closestItem = closestLoop availableItems (th_position s) first None
                  in acc\<lparr>targetItem := Some closestItem,
                        th_targetPosition :=
                          (at0 (position closestItem), 0.15, at2 (position closestItem))\<rparr>)
             | [] \<Rightarrow> acc\<lparr>thiefState := Escaping, th_targetPosition := doorPosition\<rparr>)
     | Some target \<Rightarrow>
         if (case playerHoldingItem s of
               None \<Rightarrow> False
             | Some held \<Rightarrow> item_id held = item_id target)
         then acc\<lparr>targetItem := None\<rparr>
         else (let dx = at0 (th_position s) - at0 (position target);
                   dz = at2 (th_position s) - at2 (position target);
                   distance = sqrt (dx * dx + dz * dz)
               in if distance < 0.5
                  then acc\<lparr>thiefHoldingItem := Some target,
                           items := filter (\<lambda>it. item_id it \<noteq> item_id target) (items acc),
                           stolenItems := stolenItems acc + 1,
                           thiefState := Escaping,
                           th_targetPosition := doorPosition\<rparr>
                  else acc))"

text \<open>
  The \<^verbatim>\<open>switch\<close> on the thief's state (lines 1377-1532), without the bodies of the updater
  functions handed to \<^verbatim>\<open>setWaitTimer\<close> and \<^verbatim>\<open>setFleeingCooldown\<close>: React runs those when it
  processes the queue, after the callback has returned (\<open>thiefUpdaters\<close>).
\<close>

definition fleeArrived :: "world \<Rightarrow> bool" where
  "fleeArrived s =
    (let fleeDistance =
           sqrt ((at0 (th_position s) - at0 doorPosition)\<^sup>2 +
                 (at2 (th_position s) - at2 doorPosition)\<^sup>2);
         isOutsideStore = (\<bar>at0 (th_position s)\<bar> > 4.5 \<or> \<bar>at2 (th_position s)\<bar> > 4.5)
     in fleeDistance < 0.5 \<or> isOutsideStore)"

definition thiefSwitch :: "(nat \<Rightarrow> real) \<Rightarrow> world \<Rightarrow> world \<Rightarrow> world" where
  "thiefSwitch rnd s acc =
    (case thiefState s of
       Waiting \<Rightarrow> acc
     | Entering \<Rightarrow>
         (let distanceToEntry =
                sqrt ((at0 (th_position s) - at0 storeEntryPoint)\<^sup>2 +
                      (at2 (th_position s) - at2 storeEntryPoint)\<^sup>2)
          in if distanceToEntry < 0.1
             then (let randomX = rnd (rngCalls acc) * 3 - 1.5;
                       randomZ = rnd (rngCalls acc + 1) * 3 - 1.5
                   in acc\<lparr>th_targetPosition := (randomX, 0.15, randomZ),
                         thiefState := Searching,
                         rngCalls := rngCalls acc + 2\<rparr>)
             else acc\<lparr>th_targetPosition := storeEntryPoint\<rparr>)
     | Searching \<Rightarrow> thiefSearching s acc
     | Stealing \<Rightarrow> acc
     | Escaping \<Rightarrow>
         (let escapeDistance =
                sqrt ((at0 (th_position s) - at0 doorPosition)\<^sup>2 +
                      (at2 (th_position s) - at2 doorPosition)\<^sup>2)
          in if escapeDistance < 0.5
             then acc\<lparr>thiefState := Waiting,
                     targetItem := None,
                     thiefHoldingItem := None,
                     th_position := doorPosition\<rparr>
             else acc)
     | Fleeing \<Rightarrow>
         if fleeArrived s then acc else acc\<lparr>th_targetPosition := doorPosition\<rparr>)"

text \<open>The movement toward the target position (lines 1534-1563).\<close>

definition thiefMove :: "world \<Rightarrow> world \<Rightarrow> world" where
  "thiefMove s acc =
    (if thiefState s \<noteq> Waiting
     then (let dirX = at0 (th_targetPosition s) - at0 (th_position s);
               dirZ = at2 (th_targetPosition s) - at2 (th_position s);
               length = sqrt (dirX * dirX + dirZ * dirZ)
           in if length > 0.1
              then (let normalizedDirX = dirX / length;
                        normalizedDirZ = dirZ / length;
                        currentSpeed = (if thiefState s = Fleeing then fleeingSpeed else thiefSpeed);
                        newX = at0 (th_position s) + normalizedDirX * currentSpeed;
                        newZ = at2 (th_position s) + normalizedDirZ * currentSpeed
                    in acc\<lparr>th_position := (newX, 0.15, newZ),
                          th_rotation := atan2 normalizedDirX normalizedDirZ\<rparr>)
              else acc)
     else acc)"

text \<open>
  The updater functions of \<^verbatim>\<open>setWaitTimer\<close> (lines 1380-1388) and \<^verbatim>\<open>setFleeingCooldown\<close>
  (lines 1517-1526), with the updates they queue in turn.
\<close>

definition thiefUpdaters :: "real \<Rightarrow> world \<Rightarrow> world \<Rightarrow> world" where
  "thiefUpdaters delta s acc =
    (case thiefState s of
       Waiting \<Rightarrow>
         if waitTimer acc \<le> 0
         then acc\<lparr>thiefState := Entering, th_position := doorPosition, waitTimer := 10\<rparr>
         else acc\<lparr>waitTimer := waitTimer acc - delta\<rparr>
     | Fleeing \<Rightarrow>
         if fleeArrived s
         then (if fleeingCooldown acc \<le> 0
               then acc\<lparr>thiefState := Waiting,
                       targetItem := None,
                       th_position := doorPosition,
                       fleeingCooldown := 0\<rparr>
               else acc\<lparr>fleeingCooldown := fleeingCooldown acc - delta\<rparr>)
         else acc
     | _ \<Rightarrow> acc)"

text \<open>
  The frame callback of \<^verbatim>\<open>Thief\<close> (lines 1307-1564). The scene object behind
  \<^verbatim>\<open>thiefRef\<close> is taken as mounted.
\<close>

definition thiefFrame :: "(nat \<Rightarrow> real) \<Rightarrow> real \<Rightarrow> world \<Rightarrow> world" where
  "thiefFrame rnd delta s =
    (let s1 = s\<lparr>th_walkingTime := th_walkingTime s + delta * 12\<rparr>;
         s2 = (case (targetItem s, playerHoldingItem s) of
                 (Some target, Some held) \<Rightarrow>
                   if item_id held = item_id target \<and> thiefState s = Searching
                   then s1\<lparr>targetItem := None\<rparr>
                   else s1
               | _ \<Rightarrow> s1);
         s3 = captureCheck s s2;
         s4 = thiefSwitch rnd s s3;
         s5 = thiefMove s s4
     in thiefUpdaters delta s s5)"

section \<open>Effects and events\<close>

text \<open>
  The seeding loop of \<^verbatim>\<open>GameStateProvider\<close> (lines 1057-1087): items with ids
  \<open>0 \<dots> 4\<close>.
\<close>

function seedLoop :: "(nat \<Rightarrow> real) \<Rightarrow> nat \<Rightarrow> nat \<Rightarrow> item list \<Rightarrow> item list \<times> nat" where
  "seedLoop rnd k i initialItems =
    (if i < 5
     then seedLoop rnd (snd (makeItem rnd k (int i))) (i + 1)
            (initialItems @ [fst (makeItem rnd k (int i))])
     else (initialItems, k))"
  by pat_completeness auto
termination
  by (relation "measure (\<lambda>(rnd, k, i, initialItems). 5 - i)") auto

text \<open>
  The effects that run after a render: the provider's effect (lines 1053-1092, it
  depends on \<^verbatim>\<open>items.length\<close> and seeds whenever that is zero), the character's
  (lines 686-688) and the thief's (lines 1302-1304, where \<^verbatim>\<open>targetItem?.id || null\<close>
  turns the id 0 into \<^verbatim>\<open>null\<close>).
\<close>

definition runEffects :: "(nat \<Rightarrow> real) \<Rightarrow> world \<Rightarrow> world" where
  "runEffects rnd s =
    (let s1 = s\<lparr>gs_characterPosition := Some (ch_position s)\<rparr>;
         s2 = s1\<lparr>gs_thiefTargetItem :=
                   (case targetItem s of
                      None \<Rightarrow> None
                    | Some target \<Rightarrow> if item_id target = 0 then None else Some (item_id target))\<rparr>
     in if length (items s) = 0
        then (case seedLoop rnd (rngCalls s) 0 [] of
                (initialItems, k) \<Rightarrow> s2\<lparr>items := initialItems, nextItemId := 5, rngCalls := k\<rparr>)
        else s2)"

text \<open>
  The events of a session: the space key (\<^verbatim>\<open>handleKeyDown\<close>, lines 829-832), a frame
  (the character's callback, then the thief's), and the two timers. After each event
  React renders and the effects run.
\<close>

datatype event =
    Interact int
  | Frame "string \<Rightarrow> bool" "real \<times> real" real
  | PlacingGuardTimeout
  | ShelfEffectTimeout

fun handleEvent :: "(nat \<Rightarrow> real) \<Rightarrow> event \<Rightarrow> world \<Rightarrow> world" where
  "handleEvent rnd (Interact now) s = handleItemInteraction rnd now s"
| "handleEvent rnd (Frame keysPressed camera delta) s =
    thiefFrame rnd delta (characterFrame keysPressed camera delta s)"
| "handleEvent rnd PlacingGuardTimeout s = placingGuardTimeout s"
| "handleEvent rnd ShelfEffectTimeout s = shelfEffectTimeout s"

definition step :: "(nat \<Rightarrow> real) \<Rightarrow> event \<Rightarrow> world \<Rightarrow> world" where
  "step rnd ev s = runEffects rnd (handleEvent rnd ev s)"

fun run :: "(nat \<Rightarrow> real) \<Rightarrow> event list \<Rightarrow> world \<Rightarrow> world" where
  "run rnd [] s = s"
| "run rnd (ev # evs) s = run rnd evs (step rnd ev s)"

text \<open>The initial values of every state, ref and module-level field, before the first effects.\<close>

definition mountState :: world where
  "mountState =
    \<lparr>items = [], score = 0, playerHoldingItem = None, nextItemId = 0, stolenItems = 0,
     gs_items = [], gs_nextItemId = 0, gs_playerHoldingItem = None,
     gs_characterPosition = None, gs_highlightedShelf = None, gs_thiefTargetItem = None,
     gs_shelfEffects = [], gs_isPlacingItem = False,
     ch_position = (0, 0.15, 0), ch_rotation = 0, ch_targetRotation = 0,
     ch_walkingTime = 0, ch_idleTime = 0, ch_isPlacingItem = False,
     th_position = doorPosition, th_rotation = pi / 2, th_targetPosition = doorPosition,
     thiefState = Waiting, targetItem = None, thiefHoldingItem = None,
     th_walkingTime = 0, waitTimer = 10, fleeingCooldown = 0,
     rngCalls = 0\<rparr>"

definition initialState :: "(nat \<Rightarrow> real) \<Rightarrow> world" where
  "initialState rnd = runEffects rnd mountState"

section \<open>The earlier revision of the interaction\<close>

text \<open>
  The repository also holds an earlier revision of \<^verbatim>\<open>App.tsx\<close> (without the thief). Its
  \<^verbatim>\<open>handleItemInteraction\<close> (lines 616-669 there) keeps a placed item in the collection,
  moved to the shelf, and spawns the replacement from a single random point.
\<close>

definition handleItemInteraction_earlier :: "(nat \<Rightarrow> real) \<Rightarrow> world \<Rightarrow> world" where
  "handleItemInteraction_earlier rnd s =
    (case playerHoldingItem s of
       Some held \<Rightarrow>
         (case isNearShelf (ch_position s) (Some (targetShelf held)) of
            Some nearbyShelf \<Rightarrow>
              (let s1 = s\<lparr>items :=
                          map (\<lambda>it. if item_id it = item_id held
                                     then it\<lparr>position := (shelf_x nearbyShelf, 0.3, shelf_z nearbyShelf),
                                            onShelf := True\<rparr>
                                     else it)
                              (items s)\<rparr>;
                   s2 = s1\<lparr>playerHoldingItem := None, gs_highlightedShelf := None\<rparr>;
                   s3 = s2\<lparr>score := score s2 + 10\<rparr>;
                   k = rngCalls s3;
                   x = rnd k * 4 * 2 - 4;
                   z = rnd (k + 1) * 4 * 2 - 4;
                   newItem =
                     \<lparr>item_id = nextItemId s,
                      itype = randomElement ITEM_TYPES (rnd (k + 3)),
                      position = (x, 0.2, z),
                      onShelf = False,
                      targetShelf = randomElement SHELF_POSITIONS (rnd (k + 2))\<rparr>
               in s3\<lparr>items := items s3 @ [newItem],
                     nextItemId := nextItemId s3 + 1,
                     rngCalls := k + 4\<rparr>)
          | None \<Rightarrow> s)
     | None \<Rightarrow>
         (case find (\<lambda>it. \<not> onShelf it \<and> isNearItem (ch_position s) it) (items s) of
            Some itemToPickup \<Rightarrow>
              s\<lparr>playerHoldingItem := Some itemToPickup,
                gs_highlightedShelf := Some (targetShelf itemToPickup)\<rparr>
          | None \<Rightarrow> s))"

section \<open>Notions used in the statements\<close>

text \<open>
  The planar distance of a position \<open>p\<close> to the point \<open>(x, z)\<close>: the expression
  \<^verbatim>\<open>Math.sqrt(dx * dx + dz * dz)\<close> that every proximity test of the source computes inline.
\<close>

definition planarDistance :: "vec3 \<Rightarrow> real \<Rightarrow> real \<Rightarrow> real" where
  "planarDistance p x z = sqrt ((at0 p - x) * (at0 p - x) + (at2 p - z) * (at2 p - z))"

text \<open>A position within the world bounds of the player (\<^verbatim>\<open>bounds = 4.5\<close>, line 921).\<close>

definition withinBounds :: "vec3 \<Rightarrow> bool" where
  "withinBounds p = (- 4.5 \<le> at0 p \<and> at0 p \<le> 4.5 \<and> - 4.5 \<le> at2 p \<and> at2 p \<le> 4.5)"

text \<open>
  The items the thief may choose as target: the predicate of the filter at lines
  1421-1425.
\<close>

definition availableToThief :: "world \<Rightarrow> item \<Rightarrow> bool" where
  "availableToThief s it =
    (\<not> onShelf it \<and>
     (case playerHoldingItem s of None \<Rightarrow> True | Some held \<Rightarrow> item_id it \<noteq> item_id held))"

text \<open>The thief holds an item after each event of a run.\<close>

fun thiefKeepsHolding :: "(nat \<Rightarrow> real) \<Rightarrow> event list \<Rightarrow> world \<Rightarrow> bool" where
  "thiefKeepsHolding rnd [] s = True"
| "thiefKeepsHolding rnd (ev # evs) s =
    (thiefHoldingItem (step rnd ev s) \<noteq> None \<and> thiefKeepsHolding rnd evs (step rnd ev s))"

text \<open>
  No item of the state is on a shelf: not in the collection, not held by the player or
  the thief, not the thief's target.
\<close>

definition noneOnShelf :: "world \<Rightarrow> bool" where
  "noneOnShelf s =
    ((\<forall>it \<in> set (items s). \<not> onShelf it) \<and>
     (case playerHoldingItem s of None \<Rightarrow> True | Some it \<Rightarrow> \<not> onShelf it) \<and>
     (case thiefHoldingItem s of None \<Rightarrow> True | Some it \<Rightarrow> \<not> onShelf it) \<and>
     (case targetItem s of None \<Rightarrow> True | Some it \<Rightarrow> \<not> onShelf it))"

section \<open>Concrete inputs\<close>

text \<open>
  The items, states, events and random draws on which the theorems are exercised. An
  item of the first type at \<open>(x, z)\<close>, floating at the spawn height 0.2, and two of the
  shelf anchors:
\<close>

definition cerealAt :: "int \<Rightarrow> real \<Rightarrow> real \<Rightarrow> shelf \<Rightarrow> item" where
  "cerealAt i x z sh =
    \<lparr>item_id = i,
     itype = \<lparr>type_name = ''Cereal'', type_color = ''#e3c04d'', type_scale = (0.25, 0.35, 0.2)\<rparr>,
     position = (x, 0.2, z),
     onShelf = False,
     targetShelf = sh\<rparr>"

definition shelfA :: shelf where
  "shelfA = \<lparr>shelf_x = -1.5, shelf_z = -3\<rparr>"

definition shelfB :: shelf where
  "shelfB = \<lparr>shelf_x = 1.5, shelf_z = 3\<rparr>"

text \<open>The player at the origin, holding nothing, with three items around.\<close>

definition pickupState :: world where
  "pickupState =
    mountState\<lparr>items :=
      [cerealAt 0 3 3 shelfA, cerealAt 1 0.4 0 shelfA, cerealAt 2 0.1 0 shelfB]\<rparr>"

text \<open>The player 0.5 in front of shelf A, holding item 0, whose target is shelf A.\<close>

definition placeState :: world where
  "placeState =
    mountState\<lparr>items := [cerealAt 0 2 2 shelfA, cerealAt 1 3 3 shelfB],
               playerHoldingItem := Some (cerealAt 0 2 2 shelfA),
               nextItemId := 2,
               ch_position := (-1.5, 0.15, -2.5)\<rparr>"

text \<open>The player at the wall \<open>z = -4.5\<close>, and 0.58 in front of shelf A.\<close>

definition wallState :: world where
  "wallState = mountState\<lparr>ch_position := (0, 0.15, -4.5)\<rparr>"

definition shelfFrontState :: world where
  "shelfFrontState = mountState\<lparr>ch_position := (-1.5, 0.15, -2.42)\<rparr>"

text \<open>Random draws that put every candidate point on the anchor of shelf A.\<close>

definition shelfDraws :: "nat \<Rightarrow> real" where
  "shelfDraws n = (if even n then 0.3125 else 0.125)"

text \<open>
  The thief searches without a target at \<open>(0.3, 0)\<close> while the player holds item 1; and
  the thief 0.3 from its target, item 1, with the player 0.3 behind it.
\<close>

definition searchState :: world where
  "searchState =
    pickupState\<lparr>playerHoldingItem := Some (cerealAt 1 0.4 0 shelfA),
                thiefState := Searching,
                th_position := (0.3, 0.15, 0)\<rparr>"

definition theftState :: world where
  "theftState =
    mountState\<lparr>items := [cerealAt 0 3 3 shelfA, cerealAt 1 0.6 0 shelfA],
               nextItemId := 2,
               gs_characterPosition := Some (0, 0.15, 0),
               thiefState := Searching,
               targetItem := Some (cerealAt 1 0.6 0 shelfA),
               th_position := (0.3, 0.15, 0),
               th_targetPosition := (0.6, 0.15, 0)\<rparr>"

text \<open>A frame with no key down, the camera at its initial place, and 16 ms.\<close>

definition idleFrame :: event where
  "idleFrame = Frame (\<lambda>key. False) (0, 5) 0.016"

text \<open>
  Random draws that seed the five items at \<open>(-4, -1.5)\<close> (calls 0 to 19) and, at the second
  seeding (calls 30 to 49), the items 0 to 3 at \<open>(-4, -4)\<close> and item 4 at the origin; and the
  state before the fifth theft: the items 0 to 3 are stolen, the thief is 0.475 from item
  4, the player idle at the origin.
\<close>

definition reuseDraws :: "nat \<Rightarrow> real" where
  "reuseDraws n =
    (if n \<in> {1, 5, 9, 13, 17} then 0.3125 else if n \<in> {46, 47} then 0.5 else 0)"

definition lastTheftState :: world where
  "lastTheftState =
    mountState\<lparr>items := [cerealAt 4 (- 4) (- 1.5) shelfA],
               nextItemId := 5,
               stolenItems := 4,
               gs_characterPosition := Some (0, 0.15, 0),
               thiefState := Searching,
               targetItem := Some (cerealAt 4 (- 4) (- 1.5) shelfA),
               th_position := (- 4.475, 0.15, - 1.5),
               th_targetPosition := (- 4, 0.15, - 1.5),
               rngCalls := 30\<rparr>"

section \<open>Auxiliary facts\<close>

declare samplePosition.simps [simp del]

declare isNearShelf.simps [simp del]

declare seedLoop.simps [simp del]

declare wrapDown.simps [simp del]

declare wrapUp.simps [simp del]

lemma sqrt_less_pos: "0 < r \<Longrightarrow> (sqrt a < r) = (a < r * r)"
proof -
  assume r: "0 < r"
  have "sqrt (r * r) = r"
    using r by simp
  then have "(sqrt a < r) = (sqrt a < sqrt (r * r))"
    by simp
  also have "\<dots> = (a < r * r)"
    by (rule real_sqrt_less_iff)
  finally show ?thesis .
qed

lemma sqrt_greater_pos: "0 < r \<Longrightarrow> (r < sqrt a) = (r * r < a)"
proof -
  assume r: "0 < r"
  have "sqrt (r * r) = r"
    using r by simp
  then have "(r < sqrt a) = (sqrt (r * r) < sqrt a)"
    by simp
  also have "\<dots> = (r * r < a)"
    by (rule real_sqrt_less_iff)
  finally show ?thesis .
qed

lemma sqrt_times_less: "0 < c \<Longrightarrow> 0 < d \<Longrightarrow> (sqrt a * c < d) = (a * (c * c) < d * d)"
proof -
  assume c: "0 < c" and d: "0 < d"
  have "(sqrt a * c < d) = (sqrt a < d / c)"
    using c by (simp add: field_simps)
  also have "\<dots> = (a < (d / c) * (d / c))"
    using c d by (simp add: sqrt_less_pos)
  also have "\<dots> = (a * (c * c) < d * d)"
    using c by (simp add: field_simps)
  finally show ?thesis .
qed

lemma sqrt_times_greater: "0 < c \<Longrightarrow> 0 < d \<Longrightarrow> (d < sqrt a * c) = (d * d < a * (c * c))"
proof -
  assume c: "0 < c" and d: "0 < d"
  have "(d < sqrt a * c) = (d / c < sqrt a)"
    using c by (simp add: field_simps)
  also have "\<dots> = ((d / c) * (d / c) < a)"
    using c d by (simp add: sqrt_greater_pos)
  also have "\<dots> = (d * d < a * (c * c))"
    using c by (simp add: field_simps)
  finally show ?thesis .
qed

lemmas sqrt_eval = sqrt_times_less sqrt_times_greater

lemma cerealAt_simps:
  "item_id (cerealAt i x z sh) = i"
  "position (cerealAt i x z sh) = (x, 0.2, z)"
  "onShelf (cerealAt i x z sh) = False"
  "targetShelf (cerealAt i x z sh) = sh"
  by (simp_all add: cerealAt_def)

lemma isNearItem_iff:
  "isNearItem p it = (planarDistance p (at0 (position it)) (at2 (position it)) < 0.5)"
  by (simp add: isNearItem_def planarDistance_def Let_def)

lemma isNearShelf_Some:
  "isNearShelf p (Some sh) =
    (if planarDistance p (shelf_x sh) (shelf_z sh) < 0.8 then Some sh else None)"
  by (simp add: isNearShelf.simps planarDistance_def Let_def)

lemma find_first_match:
  "P x \<Longrightarrow> \<forall>u \<in> set pre. \<not> P u \<Longrightarrow> find P (pre @ x # post) = Some x"
  by (induction pre) auto

lemma find_no_match: "\<forall>u \<in> set xs. \<not> P u \<Longrightarrow> find P xs = None"
  by (induction xs) auto

lemma collision_free_corner: "\<not> checkCollisionWithShelves (-4) (-4)"
  by (simp add: checkCollisionWithShelves_def SHELF_POSITIONS_def SHELF_SIZE_width_def
      CHARACTER_SIZE_radius_def sqrt_eval)

lemma makeItem_zero: "makeItem (\<lambda>k. 0) k i = (cerealAt i (-4) (-4) shelfA, k + 4)"
  using collision_free_corner
  by (simp add: makeItem_def samplePosition.simps [of _ k 0] randomElement_def
      ITEM_TYPES_def SHELF_POSITIONS_def cerealAt_def shelfA_def)

lemma handleItemInteraction_place:
  assumes "playerHoldingItem s = Some held"
    and "planarDistance (ch_position s) (shelf_x (targetShelf held)) (shelf_z (targetShelf held)) < 0.8"
  shows "items (handleItemInteraction rnd now s) =
           filter (\<lambda>it. item_id it \<noteq> item_id held) (items s) @
             [fst (makeItem rnd (rngCalls s) (nextItemId s))]"
    and "playerHoldingItem (handleItemInteraction rnd now s) = None"
    and "score (handleItemInteraction rnd now s) = score s + 10"
    and "nextItemId (handleItemInteraction rnd now s) = nextItemId s + 1"
  using assms
  by (simp_all add: handleItemInteraction_def isNearShelf_Some createShelfPlacementEffect_def Let_def
      case_prod_beta split: option.splits)

lemma makeItem_fields:
  "item_id (fst (makeItem rnd k i)) = i" "\<not> onShelf (fst (makeItem rnd k i))"
  by (simp_all add: makeItem_def split: prod.splits)

lemma placeState_simps:
  "playerHoldingItem placeState = Some (cerealAt 0 2 2 shelfA)"
  "items placeState = [cerealAt 0 2 2 shelfA, cerealAt 1 3 3 shelfB]"
  "ch_position placeState = (-1.5, 0.15, -2.5)"
  "nextItemId placeState = 2"
  "score placeState = 0"
  "rngCalls placeState = 0"
  by (simp_all add: placeState_def mountState_def)

lemma placeState_near: "planarDistance (ch_position placeState) (-1.5) (-3) < 0.8"
  by (simp add: placeState_simps planarDistance_def sqrt_eval)

lemma pickupState_interact:
  "handleItemInteraction (\<lambda>k. 0) 0 pickupState =
     pickupState\<lparr>playerHoldingItem := Some (cerealAt 1 0.4 0 shelfA),
                 gs_highlightedShelf := Some shelfA\<rparr>"
  by (simp add: handleItemInteraction_def pickupState_def mountState_def isNearItem_def
      cerealAt_simps sqrt_eval)

lemma movePlayer_frame:
  "items (movePlayer moving moveAngle s acc) = items acc"
  "playerHoldingItem (movePlayer moving moveAngle s acc) = playerHoldingItem acc"
  by (simp_all add: movePlayer_def Let_def)

lemma heldItemFollow_items: "items (heldItemFollow newRotation finalY s acc) = items acc"
  by (simp add: heldItemFollow_def Let_def split: option.splits)

lemma heldItemFollow_cases:
  "playerHoldingItem s = Some held \<Longrightarrow> playerHoldingItem acc = Some held \<Longrightarrow>
   playerHoldingItem (heldItemFollow newRotation finalY s acc) = Some held \<or>
   playerHoldingItem (heldItemFollow newRotation finalY s acc) =
     Some (held\<lparr>position := (at0 (ch_position s) + sin newRotation * 0.4, finalY + 0.1,
                               at2 (ch_position s) + cos newRotation * 0.4)\<rparr>)"
  by (simp add: heldItemFollow_def Let_def)

lemma heldItemFollow_held:
  assumes "playerHoldingItem s = Some held" and "playerHoldingItem acc = Some held"
  shows "\<exists>p. playerHoldingItem (heldItemFollow newRotation finalY s acc) =
           Some (held\<lparr>position := p\<rparr>)"
proof -
  have "held = held\<lparr>position := position held\<rparr>"
    by simp
  then show ?thesis
    using heldItemFollow_cases [OF assms, of newRotation finalY] by metis
qed

lemma characterFrame_items: "items (characterFrame keysPressed camera delta s) = items s"
  by (simp add: characterFrame_def Let_def heldItemFollow_items movePlayer_frame)

lemma collisionLoop_iff:
  "collisionLoop shs x z =
    (\<exists>sh \<in> set shs. planarDistance (x, y, z) (shelf_x sh) (shelf_z sh) < 0.55)"
  by (induction shs)
     (simp_all add: planarDistance_def Let_def SHELF_SIZE_width_def CHARACTER_SIZE_radius_def)

lemma checkCollisionWithShelves_iff:
  "checkCollisionWithShelves x z =
    (\<exists>sh \<in> set SHELF_POSITIONS. planarDistance (x, y, z) (shelf_x sh) (shelf_z sh) < 0.55)"
  unfolding checkCollisionWithShelves_def by (rule collisionLoop_iff)

lemma heldItemFollow_position:
  "ch_position (heldItemFollow newRotation finalY s acc) = ch_position acc"
  by (simp add: heldItemFollow_def Let_def split: option.splits)

lemma characterFrame_position:
  "ch_position (characterFrame keysPressed camera delta s) =
    (if frameMoving keysPressed \<and>
        \<not> checkCollisionWithShelves
            (at0 (ch_position s) + sin (frameMoveAngle keysPressed camera) * 0.035)
            (at2 (ch_position s) + cos (frameMoveAngle keysPressed camera) * 0.035)
     then (max (- 4.5) (min 4.5 (at0 (ch_position s) + sin (frameMoveAngle keysPressed camera) * 0.035)),
           0.15,
           max (- 4.5) (min 4.5 (at2 (ch_position s) + cos (frameMoveAngle keysPressed camera) * 0.035)))
     else ch_position s)"
  by (simp add: characterFrame_def Let_def heldItemFollow_position movePlayer_def)

lemma frame_forward:
  "frameMoving (\<lambda>key. key = ''w'')"
  "frameMoveAngle (\<lambda>key. key = ''w'') (0, 5) = pi"
  by (simp_all add: frameMoving_def frameMoveAngle_def atan2_def moveDirection_def jsRemainder_def)

lemma example_positions:
  "ch_position wallState = (0, 0.15, -4.5)"
  "ch_position shelfFrontState = (-1.5, 0.15, -2.42)"
  "ch_position mountState = (0, 0.15, 0)"
  by (simp_all add: wallState_def shelfFrontState_def mountState_def)

lemma no_collision_examples:
  "\<not> checkCollisionWithShelves 0 (- 4.535)"
  "\<not> checkCollisionWithShelves 0 (- 0.035)"
  "checkCollisionWithShelves (- 1.5) (- 2.455)"
  by (simp_all add: checkCollisionWithShelves_def SHELF_POSITIONS_def SHELF_SIZE_width_def
      CHARACTER_SIZE_radius_def sqrt_eval)

lemma captureCheck_player:
  "ch_position (captureCheck s acc) = ch_position acc"
  by (simp add: captureCheck_def Let_def split: option.splits)

lemma thiefSearching_player:
  "ch_position (thiefSearching s acc) = ch_position acc"
  by (simp add: thiefSearching_def Let_def split: option.splits list.splits)

lemma thiefSwitch_player:
  "ch_position (thiefSwitch rnd s acc) = ch_position acc"
  by (simp add: thiefSwitch_def Let_def thiefSearching_player split: thief_state.splits)

lemma thiefMove_player:
  "ch_position (thiefMove s acc) = ch_position acc"
  by (simp add: thiefMove_def Let_def)

lemma thiefUpdaters_player:
  "ch_position (thiefUpdaters delta s acc) = ch_position acc"
  by (simp add: thiefUpdaters_def split: thief_state.splits)

lemma thiefFrame_player:
  "ch_position (thiefFrame rnd delta s) = ch_position s"
  by (simp add: thiefFrame_def Let_def thiefUpdaters_player thiefMove_player thiefSwitch_player
      captureCheck_player split: option.splits prod.splits)

lemma runEffects_player:
  "ch_position (runEffects rnd s) = ch_position s"
  by (simp add: runEffects_def Let_def split: prod.splits)

lemma handleItemInteraction_player:
  "ch_position (handleItemInteraction rnd now s) = ch_position s"
  by (simp add: handleItemInteraction_def Let_def createShelfPlacementEffect_def case_prod_beta
      split: option.splits)

lemma clamp_bounds:
  "withinBounds (max (- 4.5) (min 4.5 u), y, max (- 4.5) (min 4.5 v))"
  unfolding withinBounds_def by (simp add: max_def min_def)

lemma characterFrame_bounds:
  "withinBounds (ch_position s) \<Longrightarrow>
   withinBounds (ch_position (characterFrame keysPressed camera delta s))"
  unfolding characterFrame_position by (simp only: clamp_bounds if_split simp_thms)

lemma step_bounds:
  "withinBounds (ch_position s) \<Longrightarrow> withinBounds (ch_position (step rnd ev s))"
  by (cases ev)
     (simp_all add: step_def runEffects_player handleItemInteraction_player thiefFrame_player
        characterFrame_bounds placingGuardTimeout_def shelfEffectTimeout_def)

lemma run_bounds:
  "withinBounds (ch_position s) \<Longrightarrow> withinBounds (ch_position (run rnd evs s))"
  by (induction evs arbitrary: s) (simp_all add: step_bounds)

lemma doorPosition_value: "doorPosition = (- 5.5, 0.15, - 1.5)"
  by (simp add: doorPosition_def th_offset_def th_size_def th_spacing_def)

lemma movePlayer_thief:
  "th_position (movePlayer moving moveAngle s acc) = th_position acc"
  "th_targetPosition (movePlayer moving moveAngle s acc) = th_targetPosition acc"
  "thiefState (movePlayer moving moveAngle s acc) = thiefState acc"
  "targetItem (movePlayer moving moveAngle s acc) = targetItem acc"
  "thiefHoldingItem (movePlayer moving moveAngle s acc) = thiefHoldingItem acc"
  "waitTimer (movePlayer moving moveAngle s acc) = waitTimer acc"
  "fleeingCooldown (movePlayer moving moveAngle s acc) = fleeingCooldown acc"
  "stolenItems (movePlayer moving moveAngle s acc) = stolenItems acc"
  "gs_characterPosition (movePlayer moving moveAngle s acc) = gs_characterPosition acc"
  "rngCalls (movePlayer moving moveAngle s acc) = rngCalls acc"
  "nextItemId (movePlayer moving moveAngle s acc) = nextItemId acc"
  by (simp_all add: movePlayer_def Let_def)

lemma heldItemFollow_thief:
  "th_position (heldItemFollow newRotation finalY s acc) = th_position acc"
  "th_targetPosition (heldItemFollow newRotation finalY s acc) = th_targetPosition acc"
  "thiefState (heldItemFollow newRotation finalY s acc) = thiefState acc"
  "targetItem (heldItemFollow newRotation finalY s acc) = targetItem acc"
  "thiefHoldingItem (heldItemFollow newRotation finalY s acc) = thiefHoldingItem acc"
  "waitTimer (heldItemFollow newRotation finalY s acc) = waitTimer acc"
  "fleeingCooldown (heldItemFollow newRotation finalY s acc) = fleeingCooldown acc"
  "stolenItems (heldItemFollow newRotation finalY s acc) = stolenItems acc"
  "gs_characterPosition (heldItemFollow newRotation finalY s acc) = gs_characterPosition acc"
  "rngCalls (heldItemFollow newRotation finalY s acc) = rngCalls acc"
  "nextItemId (heldItemFollow newRotation finalY s acc) = nextItemId acc"
  by (simp_all add: heldItemFollow_def Let_def split: option.splits)

lemma characterFrame_thief:
  "th_position (characterFrame keysPressed camera delta s) = th_position s"
  "th_targetPosition (characterFrame keysPressed camera delta s) = th_targetPosition s"
  "thiefState (characterFrame keysPressed camera delta s) = thiefState s"
  "targetItem (characterFrame keysPressed camera delta s) = targetItem s"
  "thiefHoldingItem (characterFrame keysPressed camera delta s) = thiefHoldingItem s"
  "waitTimer (characterFrame keysPressed camera delta s) = waitTimer s"
  "fleeingCooldown (characterFrame keysPressed camera delta s) = fleeingCooldown s"
  "stolenItems (characterFrame keysPressed camera delta s) = stolenItems s"
  "gs_characterPosition (characterFrame keysPressed camera delta s) = gs_characterPosition s"
  "rngCalls (characterFrame keysPressed camera delta s) = rngCalls s"
  "nextItemId (characterFrame keysPressed camera delta s) = nextItemId s"
  by (simp_all add: characterFrame_def Let_def heldItemFollow_thief movePlayer_thief)

lemma characterFrame_held:
  assumes "playerHoldingItem s = Some held"
  shows "\<exists>p. playerHoldingItem (characterFrame keysPressed camera delta s) =
           Some (held\<lparr>position := p\<rparr>)"
  unfolding characterFrame_def Let_def
  by (rule heldItemFollow_held [OF assms]) (simp add: movePlayer_frame assms)

lemma characterFrame_held_none:
  "playerHoldingItem s = None \<Longrightarrow>
   playerHoldingItem (characterFrame keysPressed camera delta s) = None"
  by (simp add: characterFrame_def Let_def heldItemFollow_def movePlayer_frame)

lemma characterFrame_held_id:
  "map_option item_id (playerHoldingItem (characterFrame keysPressed camera delta s)) =
   map_option item_id (playerHoldingItem s)"
proof (cases "playerHoldingItem s")
  case None
  then show ?thesis
    by (simp add: characterFrame_held_none)
next
  case (Some held)
  then obtain p where "playerHoldingItem (characterFrame keysPressed camera delta s) =
      Some (held\<lparr>position := p\<rparr>)"
    using characterFrame_held by blast
  then show ?thesis
    using Some by simp
qed

lemma runEffects_thief:
  "th_position (runEffects rnd s) = th_position s"
  "th_targetPosition (runEffects rnd s) = th_targetPosition s"
  "thiefState (runEffects rnd s) = thiefState s"
  "targetItem (runEffects rnd s) = targetItem s"
  "thiefHoldingItem (runEffects rnd s) = thiefHoldingItem s"
  "waitTimer (runEffects rnd s) = waitTimer s"
  "fleeingCooldown (runEffects rnd s) = fleeingCooldown s"
  "stolenItems (runEffects rnd s) = stolenItems s"
  "playerHoldingItem (runEffects rnd s) = playerHoldingItem s"
  "gs_characterPosition (runEffects rnd s) = Some (ch_position s)"
  by (simp_all add: runEffects_def Let_def split: prod.splits)

lemma runEffects_items:
  "items s \<noteq> [] \<Longrightarrow> items (runEffects rnd s) = items s"
  by (simp add: runEffects_def Let_def)

lemma thiefFrame_waiting:
  "thiefState s = Waiting \<Longrightarrow>
   thiefFrame rnd delta s =
     (if waitTimer s \<le> 0
      then s\<lparr>th_walkingTime := th_walkingTime s + delta * 12,
             thiefState := Entering, th_position := doorPosition, waitTimer := 10\<rparr>
      else s\<lparr>th_walkingTime := th_walkingTime s + delta * 12,
             waitTimer := waitTimer s - delta\<rparr>)"
  by (simp add: thiefFrame_def Let_def captureCheck_def thiefSwitch_def thiefMove_def
      thiefUpdaters_def split: option.splits)

lemma samplePosition_search:
  "attempts < 20 \<Longrightarrow>
   \<exists>j. attempts + j < 20 \<and>
     samplePosition rnd k attempts =
       (rnd (k + 2 * j) * 4 * 2 - 4, rnd (k + 2 * j + 1) * 4 * 2 - 4, k + 2 * j + 2) \<and>
     (\<forall>i < j. checkCollisionWithShelves
                 (rnd (k + 2 * i) * 4 * 2 - 4) (rnd (k + 2 * i + 1) * 4 * 2 - 4)) \<and>
     (attempts + j < 19 \<longrightarrow>
        \<not> checkCollisionWithShelves
            (rnd (k + 2 * j) * 4 * 2 - 4) (rnd (k + 2 * j + 1) * 4 * 2 - 4))"
proof (induction rnd k attempts rule: samplePosition.induct)
  case (1 rnd k attempts)
  show ?case
  proof (cases "attempts + 1 \<ge> 20")
    case True
    then show ?thesis
      using "1.prems" by (intro exI [of _ 0]) (simp add: samplePosition.simps [of rnd k attempts])
  next
    case cap: False
    show ?thesis
    proof (cases "checkCollisionWithShelves (rnd k * 4 * 2 - 4) (rnd (k + 1) * 4 * 2 - 4)")
      case False
      then show ?thesis
        using cap by (intro exI [of _ 0]) (simp add: samplePosition.simps [of rnd k attempts])
    next
      case True
      have "attempts + 1 < 20"
        using cap by simp
      from "1.IH" [OF cap True this] obtain j where j:
        "attempts + 1 + j < 20"
        "samplePosition rnd (k + 2) (attempts + 1) =
           (rnd (k + 2 + 2 * j) * 4 * 2 - 4, rnd (k + 2 + 2 * j + 1) * 4 * 2 - 4,
            k + 2 + 2 * j + 2)"
        "\<forall>i < j. checkCollisionWithShelves
                 (rnd (k + 2 + 2 * i) * 4 * 2 - 4) (rnd (k + 2 + 2 * i + 1) * 4 * 2 - 4)"
        "attempts + 1 + j < 19 \<longrightarrow>
           \<not> checkCollisionWithShelves
            (rnd (k + 2 + 2 * j) * 4 * 2 - 4) (rnd (k + 2 + 2 * j + 1) * 4 * 2 - 4)"
        by blast
      have all: "\<forall>i < Suc j. checkCollisionWithShelves
                 (rnd (k + 2 * i) * 4 * 2 - 4) (rnd (k + 2 * i + 1) * 4 * 2 - 4)"
      proof (intro allI impI)
        fix i
        assume "i < Suc j"
        show "checkCollisionWithShelves
                 (rnd (k + 2 * i) * 4 * 2 - 4) (rnd (k + 2 * i + 1) * 4 * 2 - 4)"
        proof (cases i)
          case 0
          then show ?thesis
            using True by simp
        next
          case (Suc i')
          then have "i' < j"
            using \<open>i < Suc j\<close> by simp
          then show ?thesis
            using j(3) Suc by (simp add: add.commute add.left_commute)
        qed
      qed
      show ?thesis
        using j(1,2,4) all cap True
        by (intro exI [of _ "Suc j"])
           (simp add: samplePosition.simps [of rnd k attempts] add.commute add.left_commute)
    qed
  qed
qed

lemma shelfDraws_collide:
  "checkCollisionWithShelves (shelfDraws (2 * i) * 4 * 2 - 4) (shelfDraws (2 * i + 1) * 4 * 2 - 4)"
  by (simp add: shelfDraws_def checkCollisionWithShelves_def SHELF_POSITIONS_def
      SHELF_SIZE_width_def CHARACTER_SIZE_radius_def)

lemma closestLoop_some:
  "closestLoop xs pos ci (Some (planarDistance pos (at0 (position ci)) (at2 (position ci)))) = r \<Longrightarrow>
   (r = ci \<or> r \<in> set xs) \<and>
   planarDistance pos (at0 (position r)) (at2 (position r))
     \<le> planarDistance pos (at0 (position ci)) (at2 (position ci)) \<and>
   (\<forall>u \<in> set xs. planarDistance pos (at0 (position r)) (at2 (position r))
     \<le> planarDistance pos (at0 (position u)) (at2 (position u)))"
proof (induction xs arbitrary: ci)
  case Nil
  then show ?case
    by simp
next
  case (Cons x xs)
  let ?d = "\<lambda>it. planarDistance pos (at0 (position it)) (at2 (position it))"
  have dx: "sqrt ((at0 pos - at0 (position x)) * (at0 pos - at0 (position x)) +
                  (at2 pos - at2 (position x)) * (at2 pos - at2 (position x))) = ?d x"
    by (simp add: planarDistance_def)
  show ?case
  proof (cases "?d x < ?d ci")
    case True
    then have "closestLoop xs pos x (Some (?d x)) = r"
      using Cons.prems by (simp add: Let_def dx)
    from Cons.IH [OF this] show ?thesis
      using True by auto
  next
    case False
    then have "closestLoop xs pos ci (Some (?d ci)) = r"
      using Cons.prems by (simp add: Let_def dx)
    from Cons.IH [OF this] show ?thesis
      using False by auto
  qed
qed

lemma closestLoop_none:
  "closestLoop (x # xs) pos ci None = r \<Longrightarrow>
   r \<in> set (x # xs) \<and>
   (\<forall>u \<in> set (x # xs). planarDistance pos (at0 (position r)) (at2 (position r))
     \<le> planarDistance pos (at0 (position u)) (at2 (position u)))"
proof -
  assume "closestLoop (x # xs) pos ci None = r"
  then have "closestLoop xs pos x
      (Some (planarDistance pos (at0 (position x)) (at2 (position x)))) = r"
    by (simp add: Let_def planarDistance_def)
  from closestLoop_some [OF this] show ?thesis
    by auto
qed

lemma captureCheck_target:
  "targetItem (captureCheck s acc) = targetItem acc"
  by (simp add: captureCheck_def Let_def split: option.splits)

lemma thiefMove_target:
  "targetItem (thiefMove s acc) = targetItem acc"
  "th_targetPosition (thiefMove s acc) = th_targetPosition acc"
  "thiefState (thiefMove s acc) = thiefState acc"
  "items (thiefMove s acc) = items acc"
  "stolenItems (thiefMove s acc) = stolenItems acc"
  "thiefHoldingItem (thiefMove s acc) = thiefHoldingItem acc"
  "playerHoldingItem (thiefMove s acc) = playerHoldingItem acc"
  by (simp_all add: thiefMove_def Let_def)

lemma thiefFrame_searching:
  "thiefState s = Searching \<Longrightarrow>
   thiefFrame rnd delta s =
     thiefMove s (thiefSearching s (captureCheck s
       (case (targetItem s, playerHoldingItem s) of
          (Some target, Some held) \<Rightarrow>
            if item_id held = item_id target
            then s\<lparr>th_walkingTime := th_walkingTime s + delta * 12, targetItem := None\<rparr>
            else s\<lparr>th_walkingTime := th_walkingTime s + delta * 12\<rparr>
        | _ \<Rightarrow> s\<lparr>th_walkingTime := th_walkingTime s + delta * 12\<rparr>)))"
  by (simp add: thiefFrame_def Let_def thiefSwitch_def thiefUpdaters_def
      split: option.splits prod.splits)

lemma filter_available:
  "filter (\<lambda>it. \<not> onShelf it \<and>
                (case playerHoldingItem s of None \<Rightarrow> True
                 | Some held \<Rightarrow> item_id it \<noteq> item_id held)) (items s) =
   filter (availableToThief s) (items s)"
  unfolding availableToThief_def ..

lemma searchState_simps:
  "thiefState searchState = Searching"
  "targetItem searchState = None"
  "th_position searchState = (0.3, 0.15, 0)"
  "playerHoldingItem searchState = Some (cerealAt 1 0.4 0 shelfA)"
  "items searchState = [cerealAt 0 3 3 shelfA, cerealAt 1 0.4 0 shelfA, cerealAt 2 0.1 0 shelfB]"
  by (simp_all add: searchState_def pickupState_def mountState_def)

lemma handleItemInteraction_thief:
  "thiefState (handleItemInteraction rnd now s) = thiefState s"
  "thiefHoldingItem (handleItemInteraction rnd now s) = thiefHoldingItem s"
  "stolenItems (handleItemInteraction rnd now s) = stolenItems s"
  "targetItem (handleItemInteraction rnd now s) = targetItem s"
  "th_position (handleItemInteraction rnd now s) = th_position s"
  by (simp_all add: handleItemInteraction_def Let_def createShelfPlacementEffect_def case_prod_beta
      split: option.splits)

lemma thiefFrame_escaping:
  "thiefState s = Escaping \<Longrightarrow>
   thiefFrame rnd delta s =
     thiefMove s
       (let acc = captureCheck s (s\<lparr>th_walkingTime := th_walkingTime s + delta * 12\<rparr>)
        in if planarDistance (th_position s) (at0 doorPosition) (at2 doorPosition) < 0.5
           then acc\<lparr>thiefState := Waiting, targetItem := None, thiefHoldingItem := None,
                   th_position := doorPosition\<rparr>
           else acc)"
  by (simp add: thiefFrame_def Let_def thiefSwitch_def thiefUpdaters_def planarDistance_def
      power2_eq_square split: option.splits prod.splits)

lemma captureCheck_escaping_cases:
  assumes "thiefState s = Escaping"
  shows "captureCheck s acc = acc \<or>
         thiefHoldingItem (captureCheck s acc) = None \<and> thiefHoldingItem s \<noteq> None \<or>
         thiefHoldingItem s = None"
  using assms by (simp add: captureCheck_def Let_def split: option.splits)

lemma thiefFrame_escaping_keeps:
  assumes "thiefState s = Escaping" and "thiefHoldingItem s = Some t"
    and "thiefHoldingItem (thiefFrame rnd delta s) \<noteq> None"
  shows "thiefHoldingItem (thiefFrame rnd delta s) = Some t \<and>
         stolenItems (thiefFrame rnd delta s) = stolenItems s \<and>
         thiefState (thiefFrame rnd delta s) = Escaping"
proof -
  let ?s1 = "s\<lparr>th_walkingTime := th_walkingTime s + delta * 12\<rparr>"
  have arr: "\<not> planarDistance (th_position s) (at0 doorPosition) (at2 doorPosition) < 0.5"
    using assms(1,3) by (auto simp: thiefFrame_escaping thiefMove_target Let_def)
  then have fr: "thiefFrame rnd delta s = thiefMove s (captureCheck s ?s1)"
    using assms(1) by (simp add: thiefFrame_escaping)
  then have "thiefHoldingItem (captureCheck s ?s1) \<noteq> None"
    using assms(3) by (simp add: thiefMove_target)
  then have "captureCheck s ?s1 = ?s1"
    using captureCheck_escaping_cases [OF assms(1), of ?s1] assms(2) by auto
  then show ?thesis
    using assms(1,2) by (simp add: fr thiefMove_target)
qed

lemma thiefFrame_escaping_capture:
  assumes "thiefState s = Escaping" and "thiefHoldingItem s = Some t"
    and "gs_characterPosition s = Some cp"
    and "planarDistance (th_position s) (at0 cp) (at2 cp) < 0.7"
  shows "items (thiefFrame rnd delta s) = items s @ [t\<lparr>position := th_position s\<rparr>]"
    and "stolenItems (thiefFrame rnd delta s) = max 0 (stolenItems s - 1)"
    and "thiefHoldingItem (thiefFrame rnd delta s) = None"
proof -
  let ?s1 = "s\<lparr>th_walkingTime := th_walkingTime s + delta * 12\<rparr>"
  have cap: "captureCheck s ?s1 =
      ?s1\<lparr>items := items s @ [t\<lparr>position := th_position s\<rparr>],
           thiefHoldingItem := None,
           stolenItems := max 0 (stolenItems s - 1),
           thiefState := Fleeing,
           th_targetPosition := doorPosition,
           fleeingCooldown := 5\<rparr>"
    using assms
    by (simp add: captureCheck_def Let_def playerCollisionRadius_def planarDistance_def)
  show "items (thiefFrame rnd delta s) = items s @ [t\<lparr>position := th_position s\<rparr>]"
    and "stolenItems (thiefFrame rnd delta s) = max 0 (stolenItems s - 1)"
    and "thiefHoldingItem (thiefFrame rnd delta s) = None"
    using assms(1) by (simp_all add: thiefFrame_escaping thiefMove_target cap Let_def)
qed

lemma captureCheck_not_holding:
  "thiefHoldingItem s = None \<Longrightarrow>
   items (captureCheck s acc) = items acc \<and>
   stolenItems (captureCheck s acc) = stolenItems acc \<and>
   thiefHoldingItem (captureCheck s acc) = thiefHoldingItem acc"
  by (simp add: captureCheck_def Let_def split: option.splits)

lemma thiefFrame_steal:
  assumes "thiefState s = Searching" and "targetItem s = Some t" and "thiefHoldingItem s = None"
    and "case playerHoldingItem s of None \<Rightarrow> True | Some held \<Rightarrow> item_id held \<noteq> item_id t"
    and "planarDistance (th_position s) (at0 (position t)) (at2 (position t)) < 0.5"
  shows "items (thiefFrame rnd delta s) = filter (\<lambda>it. item_id it \<noteq> item_id t) (items s)"
    and "stolenItems (thiefFrame rnd delta s) = stolenItems s + 1"
    and "thiefHoldingItem (thiefFrame rnd delta s) = Some t"
    and "thiefState (thiefFrame rnd delta s) = Escaping"
proof -
  let ?s1 = "s\<lparr>th_walkingTime := th_walkingTime s + delta * 12\<rparr>"
  let ?acc = "captureCheck s ?s1"
  have fr: "thiefFrame rnd delta s = thiefMove s (thiefSearching s ?acc)"
    using assms(1,2,4) by (simp add: thiefFrame_searching split: option.splits)
  have acc: "items ?acc = items s" "stolenItems ?acc = stolenItems s"
    using captureCheck_not_holding [OF assms(3), of ?s1] by simp_all
  have "thiefSearching s ?acc =
      ?acc\<lparr>thiefHoldingItem := Some t,
            items := filter (\<lambda>it. item_id it \<noteq> item_id t) (items ?acc),
            stolenItems := stolenItems ?acc + 1,
            thiefState := Escaping,
            th_targetPosition := doorPosition\<rparr>"
    using assms(2,4,5)
    by (simp add: thiefSearching_def Let_def planarDistance_def split: option.splits)
  then show "items (thiefFrame rnd delta s) = filter (\<lambda>it. item_id it \<noteq> item_id t) (items s)"
    and "stolenItems (thiefFrame rnd delta s) = stolenItems s + 1"
    and "thiefHoldingItem (thiefFrame rnd delta s) = Some t"
    and "thiefState (thiefFrame rnd delta s) = Escaping"
    by (simp_all add: fr thiefMove_target acc)
qed

lemma step_synced:
  "gs_characterPosition (step rnd ev s) = Some (ch_position (step rnd ev s))"
  by (simp add: step_def runEffects_thief runEffects_player)

lemma run_synced:
  "gs_characterPosition s = Some (ch_position s) \<Longrightarrow>
   gs_characterPosition (run rnd evs s) = Some (ch_position (run rnd evs s))"
  by (induction evs arbitrary: s) (simp_all add: step_synced)

lemma step_escaping_keeps:
  assumes "thiefState s = Escaping" and "thiefHoldingItem s = Some t"
    and "thiefHoldingItem (step rnd ev s) \<noteq> None"
  shows "thiefHoldingItem (step rnd ev s) = Some t \<and>
         stolenItems (step rnd ev s) = stolenItems s \<and>
         thiefState (step rnd ev s) = Escaping"
proof (cases ev)
  case (Frame keysPressed camera delta)
  let ?c = "characterFrame keysPressed camera delta s"
  have c: "thiefState ?c = Escaping" "thiefHoldingItem ?c = Some t"
    using assms(1,2) by (simp_all add: characterFrame_thief)
  have "thiefHoldingItem (thiefFrame rnd delta ?c) \<noteq> None"
    using assms(3) Frame by (simp add: step_def runEffects_thief)
  from thiefFrame_escaping_keeps [OF c this] show ?thesis
    using Frame by (simp add: step_def runEffects_thief characterFrame_thief)
qed (use assms in \<open>simp_all add: step_def runEffects_thief handleItemInteraction_thief
      placingGuardTimeout_def shelfEffectTimeout_def\<close>)

lemma run_escaping_keeps:
  "thiefState s = Escaping \<Longrightarrow> thiefHoldingItem s = Some t \<Longrightarrow>
   thiefKeepsHolding rnd evs s \<Longrightarrow>
   thiefHoldingItem (run rnd evs s) = Some t \<and>
   stolenItems (run rnd evs s) = stolenItems s \<and>
   thiefState (run rnd evs s) = Escaping"
proof (induction evs arbitrary: s)
  case Nil
  then show ?case
    by simp
next
  case (Cons ev evs)
  have k: "thiefHoldingItem (step rnd ev s) \<noteq> None" "thiefKeepsHolding rnd evs (step rnd ev s)"
    using Cons.prems(3) by simp_all
  note st = step_escaping_keeps [OF Cons.prems(1,2) k(1)]
  from Cons.IH [of "step rnd ev s"] st k(2) show ?case
    by simp
qed

lemma thiefMove_along_x:
  assumes "thiefState s \<noteq> Waiting"
    and "at2 (th_targetPosition s) = at2 (th_position s)"
    and "at0 (th_targetPosition s) - at0 (th_position s) > 0.1"
  shows "th_position (thiefMove s acc) =
    (at0 (th_position s) + (if thiefState s = Fleeing then fleeingSpeed else thiefSpeed),
     0.15, at2 (th_position s))"
proof -
  define d where "d = at0 (th_targetPosition s) - at0 (th_position s)"
  have d: "d > 0.1"
    using assms(3) d_def by simp
  then have l: "sqrt (d * d + 0 * 0) = d"
    by simp
  have "d / d = 1"
    using d by simp
  then show ?thesis
    using assms(1,2) d l unfolding thiefMove_def Let_def d_def [symmetric]
    by simp
qed

lemma theftState_simps:
  "thiefState theftState = Searching"
  "targetItem theftState = Some (cerealAt 1 0.6 0 shelfA)"
  "thiefHoldingItem theftState = None"
  "playerHoldingItem theftState = None"
  "th_position theftState = (0.3, 0.15, 0)"
  "th_targetPosition theftState = (0.6, 0.15, 0)"
  "ch_position theftState = (0, 0.15, 0)"
  "stolenItems theftState = 0"
  "items theftState = [cerealAt 0 3 3 shelfA, cerealAt 1 0.6 0 shelfA]"
  by (simp_all add: theftState_def mountState_def)

lemma collision_free_origin: "\<not> checkCollisionWithShelves 0 0"
  by (simp add: checkCollisionWithShelves_def SHELF_POSITIONS_def SHELF_SIZE_width_def
      CHARACTER_SIZE_radius_def sqrt_eval)

lemma makeItem_reuse_corner:
  "30 \<le> k \<Longrightarrow> k < 43 \<Longrightarrow>
   makeItem reuseDraws k i = (cerealAt i (- 4) (- 4) shelfA, k + 4)"
  using collision_free_corner
  by (simp add: makeItem_def samplePosition.simps [of _ k 0] randomElement_def reuseDraws_def
      ITEM_TYPES_def SHELF_POSITIONS_def cerealAt_def shelfA_def)

lemma makeItem_reuse_origin:
  "makeItem reuseDraws 46 i = (cerealAt i 0 0 shelfA, 50)"
  using collision_free_origin
  by (simp add: makeItem_def samplePosition.simps [of _ 46 0] randomElement_def reuseDraws_def
      ITEM_TYPES_def SHELF_POSITIONS_def cerealAt_def shelfA_def)

lemma seedLoop_reuse:
  "seedLoop reuseDraws 30 0 [] =
    ([cerealAt 0 (- 4) (- 4) shelfA, cerealAt 1 (- 4) (- 4) shelfA, cerealAt 2 (- 4) (- 4) shelfA,
      cerealAt 3 (- 4) (- 4) shelfA, cerealAt 4 0 0 shelfA], 50)"
proof -
  have "seedLoop reuseDraws 30 0 [] = seedLoop reuseDraws 34 1 [cerealAt 0 (- 4) (- 4) shelfA]"
    by (subst seedLoop.simps) (simp add: makeItem_reuse_corner)
  also have "\<dots> = seedLoop reuseDraws 38 2
      [cerealAt 0 (- 4) (- 4) shelfA, cerealAt 1 (- 4) (- 4) shelfA]"
    by (subst seedLoop.simps) (simp add: makeItem_reuse_corner numeral_2_eq_2)
  also have "\<dots> = seedLoop reuseDraws 42 3
      [cerealAt 0 (- 4) (- 4) shelfA, cerealAt 1 (- 4) (- 4) shelfA, cerealAt 2 (- 4) (- 4) shelfA]"
    by (subst seedLoop.simps) (simp add: makeItem_reuse_corner)
  also have "\<dots> = seedLoop reuseDraws 46 4
      [cerealAt 0 (- 4) (- 4) shelfA, cerealAt 1 (- 4) (- 4) shelfA, cerealAt 2 (- 4) (- 4) shelfA,
       cerealAt 3 (- 4) (- 4) shelfA]"
    by (subst seedLoop.simps) (simp add: makeItem_reuse_corner)
  also have "\<dots> = seedLoop reuseDraws 50 5
      [cerealAt 0 (- 4) (- 4) shelfA, cerealAt 1 (- 4) (- 4) shelfA, cerealAt 2 (- 4) (- 4) shelfA,
       cerealAt 3 (- 4) (- 4) shelfA, cerealAt 4 0 0 shelfA]"
    by (subst seedLoop.simps) (simp add: makeItem_reuse_origin)
  also have "\<dots> =
      ([cerealAt 0 (- 4) (- 4) shelfA, cerealAt 1 (- 4) (- 4) shelfA, cerealAt 2 (- 4) (- 4) shelfA,
        cerealAt 3 (- 4) (- 4) shelfA, cerealAt 4 0 0 shelfA], 50)"
    by (subst seedLoop.simps) simp
  finally show ?thesis .
qed

lemma runEffects_reseed:
  "items s = [] \<Longrightarrow> rngCalls s = k \<Longrightarrow>
   items (runEffects rnd s) = fst (seedLoop rnd k 0 []) \<and>
   nextItemId (runEffects rnd s) = 5"
  by (simp add: runEffects_def Let_def case_prod_beta)

lemma lastTheftState_simps:
  "thiefState lastTheftState = Searching"
  "targetItem lastTheftState = Some (cerealAt 4 (- 4) (- 1.5) shelfA)"
  "thiefHoldingItem lastTheftState = None"
  "playerHoldingItem lastTheftState = None"
  "th_position lastTheftState = (- 4.475, 0.15, - 1.5)"
  "ch_position lastTheftState = (0, 0.15, 0)"
  "items lastTheftState = [cerealAt 4 (- 4) (- 1.5) shelfA]"
  "rngCalls lastTheftState = 30"
  by (simp_all add: lastTheftState_def mountState_def)

lemma thiefFrame_held:
  "playerHoldingItem (thiefFrame rnd delta s) = playerHoldingItem s"
proof -
  have a: "playerHoldingItem (captureCheck s acc) = playerHoldingItem acc" for acc
    by (simp add: captureCheck_def Let_def split: option.splits)
  have b: "playerHoldingItem (thiefSearching s acc) = playerHoldingItem acc" for acc
    by (simp add: thiefSearching_def Let_def split: option.splits list.splits)
  have c: "playerHoldingItem (thiefSwitch rnd s acc) = playerHoldingItem acc" for acc
    by (simp add: thiefSwitch_def Let_def b split: thief_state.splits)
  have d: "playerHoldingItem (thiefUpdaters delta s acc) = playerHoldingItem acc" for acc
    by (simp add: thiefUpdaters_def split: thief_state.splits)
  show ?thesis
    by (simp add: thiefFrame_def Let_def a c d thiefMove_target split: option.splits prod.splits)
qed

lemma thiefFrame_rngCalls_searching:
  "thiefState s = Searching \<Longrightarrow> rngCalls (thiefFrame rnd delta s) = rngCalls s"
  by (simp add: thiefFrame_searching thiefMove_def thiefSearching_def captureCheck_def Let_def
      split: option.splits list.splits)

lemma thiefMove_stay:
  assumes "at2 (th_targetPosition s) = at2 (th_position s)"
    and "\<bar>at0 (th_targetPosition s) - at0 (th_position s)\<bar> \<le> 0.1"
  shows "thiefMove s acc = acc"
proof -
  define d where "d = at0 (th_targetPosition s) - at0 (th_position s)"
  have l: "sqrt (d * d + 0 * 0) = \<bar>d\<bar>"
    by simp
  show ?thesis
    using assms l unfolding thiefMove_def Let_def d_def [symmetric]
    by simp
qed

lemma captureCheck_far:
  assumes "gs_characterPosition s = Some cp"
    and "\<not> planarDistance (th_position s) (at0 cp) (at2 cp) < 0.7"
  shows "captureCheck s acc = acc"
  using assms by (simp add: captureCheck_def Let_def planarDistance_def playerCollisionRadius_def)

lemma thiefFrame_unfold:
  "thiefFrame rnd delta s =
    thiefUpdaters delta s (thiefMove s (thiefSwitch rnd s (captureCheck s
      (case (targetItem s, playerHoldingItem s) of
          (Some target, Some held) \<Rightarrow>
            if item_id held = item_id target \<and> thiefState s = Searching
            then s\<lparr>th_walkingTime := th_walkingTime s + delta * 12, targetItem := None\<rparr>
            else s\<lparr>th_walkingTime := th_walkingTime s + delta * 12\<rparr>
        | _ \<Rightarrow> s\<lparr>th_walkingTime := th_walkingTime s + delta * 12\<rparr>))))"
  by (simp add: thiefFrame_def Let_def split: option.splits prod.splits)

lemma captureCheck_holding:
  "thiefHoldingItem (captureCheck s acc) = thiefHoldingItem acc \<or>
   thiefHoldingItem (captureCheck s acc) = None"
  by (simp add: captureCheck_def Let_def split: option.splits)

lemma thiefSearching_holding:
  "thiefHoldingItem (thiefSearching s acc) = thiefHoldingItem acc \<or>
   (\<exists>target. targetItem s = Some target \<and>
      thiefHoldingItem (thiefSearching s acc) = Some target \<and>
      (case playerHoldingItem s of None \<Rightarrow> True
       | Some held \<Rightarrow> item_id held \<noteq> item_id target))"
  by (simp add: thiefSearching_def Let_def split: option.splits list.splits)

lemma thiefSwitch_holding:
  "thiefHoldingItem (thiefSwitch rnd s acc) = thiefHoldingItem acc \<or>
   thiefHoldingItem (thiefSwitch rnd s acc) = None \<or>
   (\<exists>target. targetItem s = Some target \<and>
      thiefHoldingItem (thiefSwitch rnd s acc) = Some target \<and>
      (case playerHoldingItem s of None \<Rightarrow> True
       | Some held \<Rightarrow> item_id held \<noteq> item_id target))"
proof (cases "thiefState s")
  case Searching
  then have "thiefSwitch rnd s acc = thiefSearching s acc"
    by (simp add: thiefSwitch_def)
  then show ?thesis
    using thiefSearching_holding [of s acc] by metis
qed (simp_all add: thiefSwitch_def Let_def)

lemma thiefUpdaters_holding:
  "thiefHoldingItem (thiefUpdaters delta s acc) = thiefHoldingItem acc"
  by (simp add: thiefUpdaters_def split: thief_state.splits)

lemma seedLoop_noneOnShelf:
  "\<forall>it \<in> set acc. \<not> onShelf it \<Longrightarrow> \<forall>it \<in> set (fst (seedLoop rnd k i acc)). \<not> onShelf it"
proof (induction rnd k i acc rule: seedLoop.induct)
  case (1 rnd k i initialItems)
  show ?case
  proof (cases "i < 5")
    case True
    have "\<forall>it \<in> set (initialItems @ [fst (makeItem rnd k (int i))]). \<not> onShelf it"
      using "1.prems" by (simp add: makeItem_fields)
    from "1.IH" [OF True this] show ?thesis
      using True by (subst seedLoop.simps) simp
  next
    case False
    then show ?thesis
      using "1.prems" by (subst seedLoop.simps) simp
  qed
qed

lemma noneOnShelf_runEffects: "noneOnShelf s \<Longrightarrow> noneOnShelf (runEffects rnd s)"
proof -
  assume a: "noneOnShelf s"
  have "\<forall>it \<in> set (items (runEffects rnd s)). \<not> onShelf it"
    using a seedLoop_noneOnShelf [of "[]" rnd "rngCalls s" 0]
    by (simp add: runEffects_def Let_def noneOnShelf_def case_prod_beta)
  then show ?thesis
    using a by (simp add: noneOnShelf_def runEffects_thief)
qed

lemma handleItemInteraction_far:
  "playerHoldingItem s = Some held \<Longrightarrow>
   \<not> planarDistance (ch_position s) (shelf_x (targetShelf held)) (shelf_z (targetShelf held)) < 0.8 \<Longrightarrow>
   handleItemInteraction rnd now s = s"
  by (simp add: handleItemInteraction_def isNearShelf_Some)

lemma noneOnShelf_interaction:
  "noneOnShelf s \<Longrightarrow> noneOnShelf (handleItemInteraction rnd now s)"
proof (cases "playerHoldingItem s")
  case None
  assume a: "noneOnShelf s"
  show ?thesis
  proof (cases "find (\<lambda>it. \<not> onShelf it \<and> isNearItem (ch_position s) it) (items s)")
    case n: None
    then show ?thesis
      using a None by (simp add: handleItemInteraction_def)
  next
    case (Some it)
    then have "\<not> onShelf it"
      by (auto simp: find_Some_iff)
    then show ?thesis
      using a None Some by (simp add: handleItemInteraction_def noneOnShelf_def)
  qed
next
  case (Some held)
  assume a: "noneOnShelf s"
  show ?thesis
  proof (cases "planarDistance (ch_position s) (shelf_x (targetShelf held))
      (shelf_z (targetShelf held)) < 0.8")
    case True
    note p = handleItemInteraction_place [OF Some True, of rnd now]
    show ?thesis
      using a p
      by (simp add: noneOnShelf_def handleItemInteraction_thief makeItem_fields)
  next
    case False
    then have "handleItemInteraction rnd now s = s"
      using handleItemInteraction_far [OF Some] by simp
    then show ?thesis
      using a by simp
  qed
qed


lemma noneOnShelf_characterFrame:
  "noneOnShelf s \<Longrightarrow> noneOnShelf (characterFrame keysPressed camera delta s)"
proof -
  assume a: "noneOnShelf s"
  have "case playerHoldingItem (characterFrame keysPressed camera delta s) of
          None \<Rightarrow> True | Some it \<Rightarrow> \<not> onShelf it"
  proof (cases "playerHoldingItem s")
    case None
    then show ?thesis
      by (simp add: characterFrame_held_none)
  next
    case (Some held)
    then obtain p where "playerHoldingItem (characterFrame keysPressed camera delta s) =
        Some (held\<lparr>position := p\<rparr>)"
      using characterFrame_held by blast
    then show ?thesis
      using a Some by (simp add: noneOnShelf_def)
  qed
  then show ?thesis
    using a by (simp add: noneOnShelf_def characterFrame_items characterFrame_thief)
qed

lemma noneOnShelf_captureCheck:
  "noneOnShelf s \<Longrightarrow> noneOnShelf acc \<Longrightarrow> noneOnShelf (captureCheck s acc)"
  by (auto simp: noneOnShelf_def captureCheck_def Let_def split: option.splits)

lemma noneOnShelf_thiefSearching:
  assumes "noneOnShelf s" and "noneOnShelf acc"
  shows "noneOnShelf (thiefSearching s acc)"
proof (cases "targetItem s")
  case None
  let ?avail = "filter (availableToThief s) (items s)"
  show ?thesis
  proof (cases ?avail)
    case Nil
    then show ?thesis
      using assms(2) None by (simp add: thiefSearching_def filter_available noneOnShelf_def)
  next
    case (Cons first rest)
    define t where "t = closestLoop (first # rest) (th_position s) first None"
    have "t \<in> set (first # rest)"
      using closestLoop_none [of first rest "th_position s" first t] t_def by simp
    then have "t \<in> set ?avail"
      using Cons by simp
    then have "\<not> onShelf t"
      by (simp add: availableToThief_def)
    then show ?thesis
      using assms(2) None Cons
      by (simp add: thiefSearching_def filter_available Let_def t_def [symmetric] noneOnShelf_def
          del: closestLoop.simps)
  qed
next
  case (Some target)
  then have "\<not> onShelf target"
    using assms(1) by (simp add: noneOnShelf_def)
  then show ?thesis
    using assms(2) Some
    by (auto simp: thiefSearching_def Let_def noneOnShelf_def split: option.splits)
qed

lemma noneOnShelf_thiefSwitch:
  "noneOnShelf s \<Longrightarrow> noneOnShelf acc \<Longrightarrow> noneOnShelf (thiefSwitch rnd s acc)"
  by (cases "thiefState s")
     (simp_all add: thiefSwitch_def Let_def noneOnShelf_thiefSearching, simp_all add: noneOnShelf_def)

lemma noneOnShelf_thiefMove:
  "noneOnShelf acc \<Longrightarrow> noneOnShelf (thiefMove s acc)"
  by (simp add: noneOnShelf_def thiefMove_target)

lemma noneOnShelf_thiefUpdaters:
  "noneOnShelf acc \<Longrightarrow> noneOnShelf (thiefUpdaters delta s acc)"
  by (simp add: noneOnShelf_def thiefUpdaters_def split: thief_state.splits)

lemma noneOnShelf_thiefFrame:
  assumes "noneOnShelf s"
  shows "noneOnShelf (thiefFrame rnd delta s)"
proof -
  define s0 where "s0 = (case (targetItem s, playerHoldingItem s) of
          (Some target, Some held) \<Rightarrow>
            if item_id held = item_id target \<and> thiefState s = Searching
            then s\<lparr>th_walkingTime := th_walkingTime s + delta * 12, targetItem := None\<rparr>
            else s\<lparr>th_walkingTime := th_walkingTime s + delta * 12\<rparr>
        | _ \<Rightarrow> s\<lparr>th_walkingTime := th_walkingTime s + delta * 12\<rparr>)"
  have "noneOnShelf s0"
    using assms by (auto simp: s0_def noneOnShelf_def split: option.splits)
  then have "noneOnShelf (thiefUpdaters delta s (thiefMove s (thiefSwitch rnd s
      (captureCheck s s0))))"
    using assms
    by (intro noneOnShelf_thiefUpdaters noneOnShelf_thiefMove noneOnShelf_thiefSwitch
        noneOnShelf_captureCheck)
  then show ?thesis
    unfolding thiefFrame_unfold s0_def .
qed

lemma noneOnShelf_step: "noneOnShelf s \<Longrightarrow> noneOnShelf (step rnd ev s)"
proof (cases ev)
  case (Interact now)
  assume "noneOnShelf s"
  then show ?thesis
    using Interact by (simp add: step_def noneOnShelf_runEffects noneOnShelf_interaction)
next
  case (Frame keysPressed camera delta)
  assume "noneOnShelf s"
  then show ?thesis
    using Frame
    by (simp add: step_def noneOnShelf_runEffects noneOnShelf_thiefFrame
        noneOnShelf_characterFrame)
next
  case PlacingGuardTimeout
  assume "noneOnShelf s"
  then have "noneOnShelf (placingGuardTimeout s)"
    by (simp add: noneOnShelf_def placingGuardTimeout_def)
  then show ?thesis
    using PlacingGuardTimeout by (simp add: step_def noneOnShelf_runEffects)
next
  case ShelfEffectTimeout
  assume "noneOnShelf s"
  then have "noneOnShelf (shelfEffectTimeout s)"
    by (simp add: noneOnShelf_def shelfEffectTimeout_def)
  then show ?thesis
    using ShelfEffectTimeout by (simp add: step_def noneOnShelf_runEffects)
qed

section \<open>Picking up (claims C7 and C10)\<close>

text \<open>
  Claim C7. When the player holds nothing, the interaction
  (a) leaves the whole state unchanged if no item with \<open>onShelf = False\<close> lies at a planar
  distance below 0.5 of the player, and
  (b) otherwise picks the first item of the collection, in its order, that satisfies this
  test: an item preceded only by items failing the test is the one picked, whatever lies
  behind it. Nothing but the held item and the highlighted shelf changes.
\<close>

theorem interact_empty_handed:
  assumes "playerHoldingItem s = None"
  shows "((\<forall>it \<in> set (items s).
             \<not> (\<not> onShelf it \<and>
                planarDistance (ch_position s) (at0 (position it)) (at2 (position it)) < 0.5))
           \<longrightarrow> handleItemInteraction rnd now s = s) \<and>
         (\<forall>pre it post.
            items s = pre @ it # post \<and>
            \<not> onShelf it \<and>
            planarDistance (ch_position s) (at0 (position it)) (at2 (position it)) < 0.5 \<and>
            (\<forall>u \<in> set pre.
               \<not> (\<not> onShelf u \<and>
                  planarDistance (ch_position s) (at0 (position u)) (at2 (position u)) < 0.5))
            \<longrightarrow> handleItemInteraction rnd now s =
                  s\<lparr>playerHoldingItem := Some it,
                    gs_highlightedShelf := Some (targetShelf it)\<rparr>)"
proof (intro conjI impI allI)
  assume "\<forall>it \<in> set (items s).
             \<not> (\<not> onShelf it \<and>
                planarDistance (ch_position s) (at0 (position it)) (at2 (position it)) < 0.5)"
  then have "find (\<lambda>it. \<not> onShelf it \<and> isNearItem (ch_position s) it) (items s) = None"
    by (intro find_no_match) (simp add: isNearItem_iff)
  then show "handleItemInteraction rnd now s = s"
    using assms by (simp add: handleItemInteraction_def)
next
  fix pre it post
  assume h: "items s = pre @ it # post \<and>
            \<not> onShelf it \<and>
            planarDistance (ch_position s) (at0 (position it)) (at2 (position it)) < 0.5 \<and>
            (\<forall>u \<in> set pre.
               \<not> (\<not> onShelf u \<and>
                  planarDistance (ch_position s) (at0 (position u)) (at2 (position u)) < 0.5))"
  then have "find (\<lambda>it. \<not> onShelf it \<and> isNearItem (ch_position s) it) (pre @ it # post) = Some it"
    by (intro find_first_match) (simp_all add: isNearItem_iff)
  then show "handleItemInteraction rnd now s =
                  s\<lparr>playerHoldingItem := Some it,
                    gs_highlightedShelf := Some (targetShelf it)\<rparr>"
    using assms h by (simp add: handleItemInteraction_def)
qed

text \<open>
  In \<open>pickupState\<close> the player stands at the origin; item 0 is out of reach, item 1 is at
  distance 0.4 and item 2 at distance 0.1. Item 1 is picked, although item 2 is nearer.
  With item 0 alone nothing changes.
\<close>

theorem interact_empty_handed_witness:
  "playerHoldingItem pickupState = None \<and>
   handleItemInteraction (\<lambda>k. 0) 0 pickupState =
     pickupState\<lparr>playerHoldingItem := Some (cerealAt 1 0.4 0 shelfA),
                 gs_highlightedShelf := Some shelfA\<rparr> \<and>
   handleItemInteraction (\<lambda>k. 0) 0 (pickupState\<lparr>items := [cerealAt 0 3 3 shelfA]\<rparr>) =
     pickupState\<lparr>items := [cerealAt 0 3 3 shelfA]\<rparr>"
proof -
  let ?t = "pickupState\<lparr>items := [cerealAt 0 3 3 shelfA]\<rparr>"
  have hs: "playerHoldingItem pickupState = None"
    by (simp add: pickupState_def mountState_def)
  have ht: "playerHoldingItem ?t = None"
    by (simp add: pickupState_def mountState_def)
  have pos: "ch_position pickupState = (0, 0.15, 0)"
    by (simp add: pickupState_def mountState_def)
  have its: "items pickupState =
      [cerealAt 0 3 3 shelfA] @ cerealAt 1 0.4 0 shelfA # [cerealAt 2 0.1 0 shelfB]"
    by (simp add: pickupState_def)
  have a: "handleItemInteraction (\<lambda>k. 0) 0 pickupState =
     pickupState\<lparr>playerHoldingItem := Some (cerealAt 1 0.4 0 shelfA),
        gs_highlightedShelf := Some (targetShelf (cerealAt 1 0.4 0 shelfA))\<rparr>"
    using interact_empty_handed [OF hs, of "\<lambda>k. 0" 0, THEN conjunct2, rule_format,
        of "[cerealAt 0 3 3 shelfA]" "cerealAt 1 0.4 0 shelfA" "[cerealAt 2 0.1 0 shelfB]"]
    by (simp add: its pos cerealAt_simps planarDistance_def sqrt_eval)
  have b: "handleItemInteraction (\<lambda>k. 0) 0 ?t = ?t"
    using interact_empty_handed [OF ht, of "\<lambda>k. 0" 0, THEN conjunct1]
    by (simp add: pos cerealAt_simps planarDistance_def sqrt_eval)
  show ?thesis
    using hs a b by (simp only: cerealAt_simps simp_thms)
qed

text \<open>
  Claim C10. A successful pickup changes the held item and the highlighted shelf and
  nothing else: the collection is the same list, so the picked item's entry is still in
  it, with its position and \<open>onShelf = False\<close>. The character's frame callback, which makes
  the held item trail the player, never changes the collection either: it only replaces
  the held item by a copy of it with a new position.
\<close>

theorem pickup_frame_effect:
  "(playerHoldingItem s = None \<and>
    playerHoldingItem (handleItemInteraction rnd now s) = Some it \<longrightarrow>
      handleItemInteraction rnd now s =
        s\<lparr>playerHoldingItem := Some it, gs_highlightedShelf := Some (targetShelf it)\<rparr> \<and>
      items (handleItemInteraction rnd now s) = items s \<and>
      it \<in> set (items s) \<and> \<not> onShelf it) \<and>
   items (characterFrame keysPressed camera delta s) = items s \<and>
   (\<forall>held. playerHoldingItem s = Some held \<longrightarrow>
      (\<exists>p. playerHoldingItem (characterFrame keysPressed camera delta s) =
             Some (held\<lparr>position := p\<rparr>)))"
proof (intro conjI impI allI)
  assume h: "playerHoldingItem s = None \<and>
    playerHoldingItem (handleItemInteraction rnd now s) = Some it"
  then have f: "find (\<lambda>it. \<not> onShelf it \<and> isNearItem (ch_position s) it) (items s) = Some it"
    by (auto simp: handleItemInteraction_def split: option.splits)
  show eq: "handleItemInteraction rnd now s =
        s\<lparr>playerHoldingItem := Some it, gs_highlightedShelf := Some (targetShelf it)\<rparr>"
    using h f by (simp add: handleItemInteraction_def)
  show "items (handleItemInteraction rnd now s) = items s"
    by (simp add: eq)
  show "it \<in> set (items s)"
    using f by (auto simp: find_Some_iff)
  show "\<not> onShelf it"
    using f by (auto simp: find_Some_iff)
next
  show "items (characterFrame keysPressed camera delta s) = items s"
    by (rule characterFrame_items)
next
  fix held
  assume h: "playerHoldingItem s = Some held"
  show "\<exists>p. playerHoldingItem (characterFrame keysPressed camera delta s) =
             Some (held\<lparr>position := p\<rparr>)"
    unfolding characterFrame_def Let_def
    by (rule heldItemFollow_held [OF h]) (simp add: movePlayer_frame h)
qed

text \<open>
  The pickup in \<open>pickupState\<close>, and a frame with the forward key down in \<open>placeState\<close>,
  where the player holds item 0.
\<close>

theorem pickup_frame_effect_witness:
  "playerHoldingItem pickupState = None \<and>
   playerHoldingItem (handleItemInteraction (\<lambda>k. 0) 0 pickupState) = Some (cerealAt 1 0.4 0 shelfA) \<and>
   items (handleItemInteraction (\<lambda>k. 0) 0 pickupState) = items pickupState \<and>
   playerHoldingItem placeState = Some (cerealAt 0 2 2 shelfA) \<and>
   items (characterFrame (\<lambda>key. key = ''w'') (0, 5) 1 placeState) = items placeState \<and>
   (\<exists>p. playerHoldingItem (characterFrame (\<lambda>key. key = ''w'') (0, 5) 1 placeState) =
             Some ((cerealAt 0 2 2 shelfA)\<lparr>position := p\<rparr>))"
proof -
  have n: "playerHoldingItem pickupState = None"
    by (simp add: pickupState_def mountState_def)
  have g: "playerHoldingItem (handleItemInteraction (\<lambda>k. 0) 0 pickupState) =
      Some (cerealAt 1 0.4 0 shelfA)"
    by (simp add: pickupState_interact)
  have a: "items (handleItemInteraction (\<lambda>k. 0) 0 pickupState) = items pickupState"
    using pickup_frame_effect [of pickupState "\<lambda>k. 0" 0 "cerealAt 1 0.4 0 shelfA"] n g by blast
  have b: "items (characterFrame (\<lambda>key. key = ''w'') (0, 5) 1 placeState) = items placeState"
    using pickup_frame_effect [of placeState "\<lambda>k. 0" 0 "cerealAt 0 2 2 shelfA" "\<lambda>key. key = ''w''" "(0, 5)" 1]
    by blast
  have c: "\<exists>p. playerHoldingItem (characterFrame (\<lambda>key. key = ''w'') (0, 5) 1 placeState) =
             Some ((cerealAt 0 2 2 shelfA)\<lparr>position := p\<rparr>)"
    using pickup_frame_effect [of placeState "\<lambda>k. 0" 0 "cerealAt 0 2 2 shelfA" "\<lambda>key. key = ''w''" "(0, 5)" 1]
      placeState_simps(1) by blast
  show ?thesis
    using n g a b c placeState_simps(1) by blast
qed

section \<open>Placing (claims C1 and C2)\<close>

text \<open>
  Claim C2. While the player holds an item, the interaction places it (the score grows by
  10 and the player holds nothing afterwards) exactly when the player's planar distance
  to the held item's own target shelf is below 0.8; otherwise the state is unchanged,
  wherever else the player stands. (The comparison of the code is strict: at distance
  exactly 0.8 nothing is placed.)
\<close>

theorem placement_iff_near_own_shelf:
  assumes "playerHoldingItem s = Some held"
  shows "((score (handleItemInteraction rnd now s) = score s + 10 \<and>
           playerHoldingItem (handleItemInteraction rnd now s) = None) \<longleftrightarrow>
          planarDistance (ch_position s) (shelf_x (targetShelf held)) (shelf_z (targetShelf held)) < 0.8) \<and>
         (\<not> planarDistance (ch_position s) (shelf_x (targetShelf held)) (shelf_z (targetShelf held)) < 0.8
            \<longrightarrow> handleItemInteraction rnd now s = s)"
  using assms
  by (simp add: handleItemInteraction_def isNearShelf_Some createShelfPlacementEffect_def Let_def
      split: prod.splits option.splits)

text \<open>
  In \<open>placeState\<close> the player holds item 0, whose target is shelf A, and stands 0.5 from
  it: the item is placed. Standing on the anchor of shelf B instead, nothing happens.
\<close>

theorem placement_iff_near_own_shelf_witness:
  "playerHoldingItem placeState = Some (cerealAt 0 2 2 shelfA) \<and>
   score (handleItemInteraction (\<lambda>k. 0) 0 placeState) = score placeState + 10 \<and>
   playerHoldingItem (handleItemInteraction (\<lambda>k. 0) 0 placeState) = None \<and>
   planarDistance (1.5, 0.15, 3) (shelf_x shelfB) (shelf_z shelfB) < 0.8 \<and>
   handleItemInteraction (\<lambda>k. 0) 0 (placeState\<lparr>ch_position := (1.5, 0.15, 3)\<rparr>) =
     placeState\<lparr>ch_position := (1.5, 0.15, 3)\<rparr>"
proof -
  let ?t = "placeState\<lparr>ch_position := (1.5, 0.15, 3)\<rparr>"
  have ht: "playerHoldingItem ?t = Some (cerealAt 0 2 2 shelfA)"
    by (simp add: placeState_simps)
  have near: "planarDistance (ch_position placeState)
      (shelf_x (targetShelf (cerealAt 0 2 2 shelfA))) (shelf_z (targetShelf (cerealAt 0 2 2 shelfA))) < 0.8"
    using placeState_near by (simp add: cerealAt_simps shelfA_def)
  have far: "\<not> planarDistance (ch_position ?t)
      (shelf_x (targetShelf (cerealAt 0 2 2 shelfA))) (shelf_z (targetShelf (cerealAt 0 2 2 shelfA))) < 0.8"
    by (simp add: cerealAt_simps shelfA_def planarDistance_def sqrt_eval)
  have other: "planarDistance (1.5, 0.15, 3) (shelf_x shelfB) (shelf_z shelfB) < 0.8"
    by (simp add: shelfB_def planarDistance_def)
  have a: "score (handleItemInteraction (\<lambda>k. 0) 0 placeState) = score placeState + 10 \<and>
           playerHoldingItem (handleItemInteraction (\<lambda>k. 0) 0 placeState) = None"
    using placement_iff_near_own_shelf [OF placeState_simps(1), of "\<lambda>k. 0" 0] near by blast
  have b: "handleItemInteraction (\<lambda>k. 0) 0 ?t = ?t"
    using placement_iff_near_own_shelf [OF ht, of "\<lambda>k. 0" 0] far by blast
  show ?thesis
    using placeState_simps(1) a b other by blast
qed

text \<open>
  Claim C1, as stated, fails: the placed item is not kept in the collection with
  \<open>onShelf = True\<close>. In \<open>placeState\<close> the collection holds the ids 0 and 1 and the player
  places item 0 at shelf \<open>(-1.5, -3)\<close>; afterwards the collection holds the ids 1 and 2,
  both with \<open>onShelf = False\<close>. The earlier revision does mark the item, but then the
  collection has grown to three items.
\<close>

theorem placement_at_shelf_counterexample:
  "playerHoldingItem placeState = Some (cerealAt 0 2 2 shelfA) \<and>
   targetShelf (cerealAt 0 2 2 shelfA) = \<lparr>shelf_x = -1.5, shelf_z = -3\<rparr> \<and>
   planarDistance (ch_position placeState) (-1.5) (-3) < 0.8 \<and>
   map item_id (items placeState) = [0, 1] \<and>
   map item_id (items (handleItemInteraction (\<lambda>k. 0) 0 placeState)) = [1, 2] \<and>
   map onShelf (items (handleItemInteraction (\<lambda>k. 0) 0 placeState)) = [False, False] \<and>
   map item_id (items (handleItemInteraction_earlier (\<lambda>k. 0) placeState)) = [0, 1, 2] \<and>
   map onShelf (items (handleItemInteraction_earlier (\<lambda>k. 0) placeState)) = [True, False, False]"
proof -
  have near: "planarDistance (ch_position placeState)
      (shelf_x (targetShelf (cerealAt 0 2 2 shelfA))) (shelf_z (targetShelf (cerealAt 0 2 2 shelfA))) < 0.8"
    using placeState_near by (simp add: cerealAt_simps shelfA_def)
  have a: "items (handleItemInteraction (\<lambda>k. 0) 0 placeState) =
      [cerealAt 1 3 3 shelfB, cerealAt 2 (-4) (-4) shelfA]"
    using handleItemInteraction_place(1) [OF placeState_simps(1) near, of "\<lambda>k. 0" 0]
    by (simp add: placeState_simps makeItem_zero cerealAt_simps)
  have b: "items (handleItemInteraction_earlier (\<lambda>k. 0) placeState) =
      [(cerealAt 0 2 2 shelfA)\<lparr>position := (-1.5, 0.3, -3), onShelf := True\<rparr>,
       cerealAt 1 3 3 shelfB, cerealAt 2 (-4) (-4) shelfA]"
    using near
    by (simp add: handleItemInteraction_earlier_def isNearShelf_Some placeState_simps Let_def
        cerealAt_simps randomElement_def ITEM_TYPES_def SHELF_POSITIONS_def)
       (simp add: cerealAt_def shelfA_def)
  show ?thesis
    using placeState_near by (simp add: a b placeState_simps cerealAt_simps shelfA_def)
qed

text \<open>
  Claim C1, amended. When the player holds an item whose target shelf is the anchor
  \<open>(-1.5, -3)\<close> and stands at a planar distance below 0.8 of it, the interaction removes
  every entry with the item's id from the collection and appends one new item, with the
  id \<open>nextItemId\<close> and \<open>onShelf = False\<close>; the player holds nothing, the score grows by
  exactly 10, and the number of items is unchanged when the collection held exactly one
  entry with that id.
\<close>

theorem placement_at_shelf:
  assumes "playerHoldingItem s = Some held"
    and "targetShelf held = \<lparr>shelf_x = -1.5, shelf_z = -3\<rparr>"
    and "planarDistance (ch_position s) (-1.5) (-3) < 0.8"
  shows "\<exists>newItem.
      items (handleItemInteraction rnd now s) =
        filter (\<lambda>it. item_id it \<noteq> item_id held) (items s) @ [newItem] \<and>
      item_id newItem = nextItemId s \<and> \<not> onShelf newItem \<and>
      playerHoldingItem (handleItemInteraction rnd now s) = None \<and>
      score (handleItemInteraction rnd now s) = score s + 10 \<and>
      nextItemId (handleItemInteraction rnd now s) = nextItemId s + 1 \<and>
      (length (filter (\<lambda>it. item_id it = item_id held) (items s)) = 1 \<longrightarrow>
         length (items (handleItemInteraction rnd now s)) = length (items s))"
proof -
  have near: "planarDistance (ch_position s) (shelf_x (targetShelf held)) (shelf_z (targetShelf held)) < 0.8"
    using assms(2,3) by simp
  note p = handleItemInteraction_place [OF assms(1) near, of rnd now]
  have len: "length (filter (\<lambda>it. item_id it = item_id held) (items s)) +
             length (filter (\<lambda>it. item_id it \<noteq> item_id held) (items s)) = length (items s)"
    using sum_length_filter_compl [of "\<lambda>it. item_id it = item_id held" "items s"] by simp
  show ?thesis
    apply (rule exI [of _ "fst (makeItem rnd (rngCalls s) (nextItemId s))"])
    using p len by (simp add: makeItem_fields)
qed

theorem placement_at_shelf_witness:
  "playerHoldingItem placeState = Some (cerealAt 0 2 2 shelfA) \<and>
   targetShelf (cerealAt 0 2 2 shelfA) = \<lparr>shelf_x = -1.5, shelf_z = -3\<rparr> \<and>
   planarDistance (ch_position placeState) (-1.5) (-3) < 0.8 \<and>
   length (filter (\<lambda>it. item_id it = 0) (items placeState)) = 1 \<and>
   score (handleItemInteraction (\<lambda>k. 0) 0 placeState) = 10 \<and>
   length (items (handleItemInteraction (\<lambda>k. 0) 0 placeState)) = 2"
proof -
  have t: "targetShelf (cerealAt 0 2 2 shelfA) = \<lparr>shelf_x = -1.5, shelf_z = -3\<rparr>"
    by (simp add: cerealAt_simps shelfA_def)
  have one: "length (filter (\<lambda>it. item_id it = 0) (items placeState)) = 1"
    by (simp add: placeState_simps cerealAt_simps)
  show ?thesis
    using placement_at_shelf [OF placeState_simps(1) t placeState_near, of "\<lambda>k. 0" 0] one t
      placeState_near
    by (auto simp: placeState_simps cerealAt_simps)
qed

section \<open>Movement (claims C4 and C5)\<close>

text \<open>
  Claim C4, as stated, fails in its second half: the position is not always updated to
  the proposed point. In \<open>wallState\<close> the player stands at \<open>z = -4.5\<close> and walks forward;
  the proposed point \<open>(0, -4.535)\<close> collides with no shelf, and the new position is
  \<open>(0, -4.5)\<close>, not the proposed point.
\<close>

theorem move_rejected_or_clamped_counterexample:
  "frameMoving (\<lambda>key. key = ''w'') \<and>
   at0 (ch_position wallState) + sin (frameMoveAngle (\<lambda>key. key = ''w'') (0, 5)) * 0.035 = 0 \<and>
   at2 (ch_position wallState) + cos (frameMoveAngle (\<lambda>key. key = ''w'') (0, 5)) * 0.035 = - 4.535 \<and>
   \<not> checkCollisionWithShelves 0 (- 4.535) \<and>
   ch_position (characterFrame (\<lambda>key. key = ''w'') (0, 5) 1 wallState) = (0, 0.15, - 4.5)"
  using no_collision_examples(1)
  by (simp add: characterFrame_position frame_forward example_positions)

text \<open>
  Claim C4, amended. In a frame in which the player moves, with \<open>(newX, newZ)\<close> the proposed
  next position: if it lies at a planar distance below 0.55 of some shelf anchor, the
  player's position is left unchanged; otherwise the position becomes the proposed
  point with each coordinate clamped to \<open>[-4.5, 4.5]\<close>, which is the proposed point itself
  when it lies within these bounds.
\<close>

theorem move_rejected_or_clamped:
  assumes "frameMoving keysPressed"
    and "newX = at0 (ch_position s) + sin (frameMoveAngle keysPressed camera) * 0.035"
    and "newZ = at2 (ch_position s) + cos (frameMoveAngle keysPressed camera) * 0.035"
  shows "((\<exists>sh \<in> set SHELF_POSITIONS.
             planarDistance (newX, 0.15, newZ) (shelf_x sh) (shelf_z sh) < 0.55) \<longrightarrow>
          ch_position (characterFrame keysPressed camera delta s) = ch_position s) \<and>
         (\<not> (\<exists>sh \<in> set SHELF_POSITIONS.
             planarDistance (newX, 0.15, newZ) (shelf_x sh) (shelf_z sh) < 0.55) \<longrightarrow>
          ch_position (characterFrame keysPressed camera delta s) =
            (max (- 4.5) (min 4.5 newX), 0.15, max (- 4.5) (min 4.5 newZ)) \<and>
          (\<bar>newX\<bar> \<le> 4.5 \<and> \<bar>newZ\<bar> \<le> 4.5 \<longrightarrow>
             ch_position (characterFrame keysPressed camera delta s) = (newX, 0.15, newZ)))"
  using assms(1)
  unfolding characterFrame_position assms(2,3) [symmetric]
    checkCollisionWithShelves_iff [of newX newZ "0.15"]
  by auto

text \<open>
  Walking forward in front of a shelf (rejected), at the wall (clamped) and from the
  origin (moved to the proposed point).
\<close>

theorem move_rejected_or_clamped_witness:
  "frameMoving (\<lambda>key. key = ''w'') \<and>
   ch_position (characterFrame (\<lambda>key. key = ''w'') (0, 5) 1 shelfFrontState) =
     ch_position shelfFrontState \<and>
   ch_position (characterFrame (\<lambda>key. key = ''w'') (0, 5) 1 wallState) = (0, 0.15, - 4.5) \<and>
   ch_position (characterFrame (\<lambda>key. key = ''w'') (0, 5) 1 mountState) = (0, 0.15, - 0.035)"
proof -
  let ?fw = "\<lambda>key. key = ''w''"
  have x1: "- 1.5 = at0 (ch_position shelfFrontState) + sin (frameMoveAngle ?fw (0, 5)) * 0.035"
    and z1: "- 2.455 = at2 (ch_position shelfFrontState) + cos (frameMoveAngle ?fw (0, 5)) * 0.035"
    and x2: "0 = at0 (ch_position wallState) + sin (frameMoveAngle ?fw (0, 5)) * 0.035"
    and z2: "- 4.535 = at2 (ch_position wallState) + cos (frameMoveAngle ?fw (0, 5)) * 0.035"
    and x3: "0 = at0 (ch_position mountState) + sin (frameMoveAngle ?fw (0, 5)) * 0.035"
    and z3: "- 0.035 = at2 (ch_position mountState) + cos (frameMoveAngle ?fw (0, 5)) * 0.035"
    by (simp_all add: frame_forward example_positions)
  have c1: "\<exists>sh \<in> set SHELF_POSITIONS.
      planarDistance (- 1.5, 0.15, - 2.455) (shelf_x sh) (shelf_z sh) < 0.55"
    using no_collision_examples(3) checkCollisionWithShelves_iff [of "- 1.5" "- 2.455" "0.15"]
    by simp
  have c2: "\<not> (\<exists>sh \<in> set SHELF_POSITIONS.
      planarDistance (0, 0.15, - 4.535) (shelf_x sh) (shelf_z sh) < 0.55)"
    using no_collision_examples(1) checkCollisionWithShelves_iff [of 0 "- 4.535" "0.15"]
    by simp
  have c3: "\<not> (\<exists>sh \<in> set SHELF_POSITIONS.
      planarDistance (0, 0.15, - 0.035) (shelf_x sh) (shelf_z sh) < 0.55)"
    using no_collision_examples(2) checkCollisionWithShelves_iff [of 0 "- 0.035" "0.15"]
    by simp
  have a: "ch_position (characterFrame ?fw (0, 5) 1 shelfFrontState) = ch_position shelfFrontState"
    using move_rejected_or_clamped [OF frame_forward(1) x1 z1, of 1] c1 by blast
  have b: "ch_position (characterFrame ?fw (0, 5) 1 wallState) = (0, 0.15, - 4.5)"
    using move_rejected_or_clamped [OF frame_forward(1) x2 z2, of 1] c2 by simp
  have c: "ch_position (characterFrame ?fw (0, 5) 1 mountState) = (0, 0.15, - 0.035)"
    using move_rejected_or_clamped [OF frame_forward(1) x3 z3, of 1] c3 by simp
  show ?thesis
    using frame_forward(1) a b c by blast
qed

text \<open>
  Claim C5, as stated, fails for the thief: its door anchor is \<open>(-5.5, -1.5)\<close>, where it
  stands from the start, and after the first frame it is still there, outside the bounds.
\<close>

theorem thief_outside_bounds_counterexample:
  "th_position (run (\<lambda>k. 0) [Frame (\<lambda>key. False) (0, 5) 0.016] (initialState (\<lambda>k. 0))) =
     (- 5.5, 0.15, - 1.5) \<and>
   \<not> (- 4.5 \<le> at0 (th_position
        (run (\<lambda>k. 0) [Frame (\<lambda>key. False) (0, 5) 0.016] (initialState (\<lambda>k. 0)))))"
proof -
  let ?s0 = "initialState (\<lambda>k. 0)"
  let ?c = "characterFrame (\<lambda>key. False) (0, 5) 0.016 ?s0"
  have w: "thiefState ?c = Waiting" "waitTimer ?c = 10" "th_position ?c = doorPosition"
    by (simp_all add: characterFrame_thief initialState_def runEffects_thief mountState_def)
  have "th_position (thiefFrame (\<lambda>k. 0) 0.016 ?c) = doorPosition"
    using w by (simp add: thiefFrame_waiting)
  then have "th_position (run (\<lambda>k. 0) [Frame (\<lambda>key. False) (0, 5) 0.016] ?s0) = doorPosition"
    by (simp add: step_def runEffects_thief)
  then show ?thesis
    by (simp add: doorPosition_value)
qed

text \<open>
  Claim C5, amended. After every sequence of events from the initial state, the player's
  position lies within \<open>[-4.5, 4.5]\<close> on both planar axes. (The thief's position is not
  bounded in this way.)
\<close>

theorem player_within_bounds:
  "- 4.5 \<le> at0 (ch_position (run rnd evs (initialState rnd))) \<and>
   at0 (ch_position (run rnd evs (initialState rnd))) \<le> 4.5 \<and>
   - 4.5 \<le> at2 (ch_position (run rnd evs (initialState rnd))) \<and>
   at2 (ch_position (run rnd evs (initialState rnd))) \<le> 4.5"
proof -
  have "withinBounds (ch_position (initialState rnd))"
    by (simp add: initialState_def runEffects_player mountState_def withinBounds_def)
  then have "withinBounds (ch_position (run rnd evs (initialState rnd)))"
    by (rule run_bounds)
  then show ?thesis
    by (simp add: withinBounds_def)
qed

section \<open>Spawning (claim C8)\<close>

text \<open>
  Claim C8. With a random source whose values lie in \<open>[0, 1)\<close>, the position search of a
  spawn (the same loop in \<^verbatim>\<open>spawnRandomItem\<close>, in the replacement spawn and in the seeding)
  always returns: it accepts draw number \<open>j + 1\<close> for some \<open>j < 20\<close>, a point of
  \<open>[-4, 4)\<^sup>2\<close>, having made \<open>j + 1\<close> draws; every earlier draw collided with a shelf; and
  either the accepted draw does not collide or it is the twentieth, which is accepted
  without a collision test. The spawned item sits at that point, at height 0.2.
\<close>

theorem spawn_position_search:
  assumes "\<forall>n. 0 \<le> rnd n \<and> rnd n < 1"
  shows "\<exists>j < 20.
     samplePosition rnd k 0 =
       (rnd (k + 2 * j) * 4 * 2 - 4, rnd (k + 2 * j + 1) * 4 * 2 - 4, k + 2 * j + 2) \<and>
     position (fst (makeItem rnd k newId)) =
       (rnd (k + 2 * j) * 4 * 2 - 4, 0.2, rnd (k + 2 * j + 1) * 4 * 2 - 4) \<and>
     (\<forall>i < j. checkCollisionWithShelves
                 (rnd (k + 2 * i) * 4 * 2 - 4) (rnd (k + 2 * i + 1) * 4 * 2 - 4)) \<and>
     (j < 19 \<longrightarrow>
        \<not> checkCollisionWithShelves
            (rnd (k + 2 * j) * 4 * 2 - 4) (rnd (k + 2 * j + 1) * 4 * 2 - 4)) \<and>
     - 4 \<le> rnd (k + 2 * j) * 4 * 2 - 4 \<and> rnd (k + 2 * j) * 4 * 2 - 4 < 4 \<and>
     - 4 \<le> rnd (k + 2 * j + 1) * 4 * 2 - 4 \<and> rnd (k + 2 * j + 1) * 4 * 2 - 4 < 4"
proof -
  obtain j where j: "0 + j < 20"
     "samplePosition rnd k 0 =
       (rnd (k + 2 * j) * 4 * 2 - 4, rnd (k + 2 * j + 1) * 4 * 2 - 4, k + 2 * j + 2)"
     "\<forall>i < j. checkCollisionWithShelves
                 (rnd (k + 2 * i) * 4 * 2 - 4) (rnd (k + 2 * i + 1) * 4 * 2 - 4)"
     "0 + j < 19 \<longrightarrow>
        \<not> checkCollisionWithShelves
            (rnd (k + 2 * j) * 4 * 2 - 4) (rnd (k + 2 * j + 1) * 4 * 2 - 4)"
    using samplePosition_search [of 0 rnd k] by auto
  have r: "0 \<le> rnd (k + 2 * j)" "rnd (k + 2 * j) < 1"
     "0 \<le> rnd (k + 2 * j + 1)" "rnd (k + 2 * j + 1) < 1"
    using assms by simp_all
  have p: "position (fst (makeItem rnd k newId)) =
       (rnd (k + 2 * j) * 4 * 2 - 4, 0.2, rnd (k + 2 * j + 1) * 4 * 2 - 4)"
    by (simp add: makeItem_def j(2))
  show ?thesis
    using j p r by (intro exI [of _ j]) simp
qed

text \<open>
  A random source whose every draw is the anchor of shelf \<open>(-1.5, -3)\<close>: the search ends
  after 20 draws (40 random calls) on a colliding point.
\<close>

theorem spawn_position_search_witness:
  "(\<forall>n. 0 \<le> shelfDraws n \<and> shelfDraws n < 1) \<and>
   samplePosition shelfDraws 0 0 = (- 1.5, - 3, 40) \<and>
   checkCollisionWithShelves (- 1.5) (- 3)"
proof -
  have range: "\<forall>n. 0 \<le> shelfDraws n \<and> shelfDraws n < 1"
    by (simp add: shelfDraws_def)
  obtain j where j: "j < 20"
     "samplePosition shelfDraws 0 0 =
       (shelfDraws (0 + 2 * j) * 4 * 2 - 4, shelfDraws (0 + 2 * j + 1) * 4 * 2 - 4, 0 + 2 * j + 2)"
     "j < 19 \<longrightarrow>
        \<not> checkCollisionWithShelves
            (shelfDraws (0 + 2 * j) * 4 * 2 - 4) (shelfDraws (0 + 2 * j + 1) * 4 * 2 - 4)"
    using spawn_position_search [OF range, of 0 0] by blast
  have "j = 19"
    using j(1,3) shelfDraws_collide [of j] by simp
  then have "samplePosition shelfDraws 0 0 = (- 1.5, - 3, 40)"
    using j(2) by (simp add: shelfDraws_def)
  moreover have "checkCollisionWithShelves (- 1.5) (- 3)"
    using shelfDraws_collide [of 0] by (simp add: shelfDraws_def)
  ultimately show ?thesis
    using range by blast
qed

section \<open>The thief (claims C3, C6 and C9)\<close>

text \<open>
  Claim C6. In a frame that the thief starts in the searching state with no target
  item, with as available items those of the collection that are not on a shelf and do
  not have the id of the item the player holds: if there is an available item, the
  thief's target becomes an available item whose planar distance to the thief is minimal
  among the available ones, and its movement target that item's position; if there is
  none, the thief goes to the escaping state with the door as movement target.
\<close>

theorem thief_selects_nearest:
  assumes "thiefState s = Searching" and "targetItem s = None"
  shows "((\<exists>it \<in> set (items s). availableToThief s it) \<longrightarrow>
           (\<exists>t \<in> set (items s). availableToThief s t \<and>
              targetItem (thiefFrame rnd delta s) = Some t \<and>
              th_targetPosition (thiefFrame rnd delta s) =
                (at0 (position t), 0.15, at2 (position t)) \<and>
              (\<forall>u \<in> set (items s). availableToThief s u \<longrightarrow>
                 planarDistance (th_position s) (at0 (position t)) (at2 (position t))
                   \<le> planarDistance (th_position s) (at0 (position u)) (at2 (position u))))) \<and>
         (\<not> (\<exists>it \<in> set (items s). availableToThief s it) \<longrightarrow>
            thiefState (thiefFrame rnd delta s) = Escaping \<and>
            th_targetPosition (thiefFrame rnd delta s) = doorPosition \<and>
            targetItem (thiefFrame rnd delta s) = None)"
proof -
  let ?acc = "captureCheck s (s\<lparr>th_walkingTime := th_walkingTime s + delta * 12\<rparr>)"
  let ?avail = "filter (availableToThief s) (items s)"
  have fr: "thiefFrame rnd delta s = thiefMove s (thiefSearching s ?acc)"
    using assms by (simp add: thiefFrame_searching)
  show ?thesis
  proof (cases ?avail)
    case Nil
    then have none: "\<not> (\<exists>it \<in> set (items s). availableToThief s it)"
      by (simp add: filter_empty_conv)
    have "thiefSearching s ?acc = ?acc\<lparr>thiefState := Escaping, th_targetPosition := doorPosition\<rparr>"
      using assms(2) Nil by (simp add: thiefSearching_def filter_available)
    then show ?thesis
      using none assms(2) by (simp add: fr thiefMove_target captureCheck_target)
  next
    case (Cons first rest)
    define t where "t = closestLoop ?avail (th_position s) first None"
    have "t \<in> set ?avail \<and>
       (\<forall>u \<in> set ?avail. planarDistance (th_position s) (at0 (position t)) (at2 (position t))
         \<le> planarDistance (th_position s) (at0 (position u)) (at2 (position u)))"
      using closestLoop_none [of first rest "th_position s" first t] t_def Cons by simp
    then have t: "t \<in> set (items s)" "availableToThief s t"
       "\<forall>u \<in> set (items s). availableToThief s u \<longrightarrow>
          planarDistance (th_position s) (at0 (position t)) (at2 (position t))
            \<le> planarDistance (th_position s) (at0 (position u)) (at2 (position u))"
      by auto
    have "thiefSearching s ?acc =
        ?acc\<lparr>targetItem := Some t,
              th_targetPosition := (at0 (position t), 0.15, at2 (position t))\<rparr>"
      using assms(2) Cons by (simp add: thiefSearching_def filter_available Let_def t_def)
    then have "targetItem (thiefFrame rnd delta s) = Some t"
      "th_targetPosition (thiefFrame rnd delta s) = (at0 (position t), 0.15, at2 (position t))"
      by (simp_all add: fr thiefMove_target)
    then show ?thesis
      using t by blast
  qed
qed

text \<open>
  In \<open>searchState\<close> the thief stands at \<open>(0.3, 0)\<close> and the player holds item 1, the item
  nearest to the thief: the target becomes item 2. With item 1 alone in the collection
  the thief escapes.
\<close>

theorem thief_selects_nearest_witness:
  "thiefState searchState = Searching \<and> targetItem searchState = None \<and>
   targetItem (thiefFrame (\<lambda>k. 0) 0.016 searchState) = Some (cerealAt 2 0.1 0 shelfB) \<and>
   thiefState (thiefFrame (\<lambda>k. 0) 0.016 (searchState\<lparr>items := [cerealAt 1 0.4 0 shelfA]\<rparr>)) =
     Escaping"
proof -
  let ?e = "searchState\<lparr>items := [cerealAt 1 0.4 0 shelfA]\<rparr>"
  have av: "availableToThief searchState (cerealAt 0 3 3 shelfA)"
    "\<not> availableToThief searchState (cerealAt 1 0.4 0 shelfA)"
    "availableToThief searchState (cerealAt 2 0.1 0 shelfB)"
    by (simp_all add: availableToThief_def searchState_simps cerealAt_simps)
  have far: "\<not> planarDistance (th_position searchState) (at0 (position (cerealAt 0 3 3 shelfA)))
        (at2 (position (cerealAt 0 3 3 shelfA)))
      \<le> planarDistance (th_position searchState) (at0 (position (cerealAt 2 0.1 0 shelfB)))
        (at2 (position (cerealAt 2 0.1 0 shelfB)))"
  proof -
    have "planarDistance (0.3, 0.15, 0) 0.1 0 < 1"
      by (simp add: planarDistance_def)
    moreover have "1 < planarDistance (0.3, 0.15, 0) 3 3"
      using sqrt_greater_pos [of 1 "(0.3 - 3) * (0.3 - 3) + (0 - 3) * (0 - 3)"]
      by (simp add: planarDistance_def)
    ultimately show ?thesis
      by (simp add: searchState_simps cerealAt_simps)
  qed
  obtain t where t: "t \<in> set (items searchState)" "availableToThief searchState t"
    "targetItem (thiefFrame (\<lambda>k. 0) 0.016 searchState) = Some t"
    "\<forall>u \<in> set (items searchState). availableToThief searchState u \<longrightarrow>
       planarDistance (th_position searchState) (at0 (position t)) (at2 (position t))
         \<le> planarDistance (th_position searchState) (at0 (position u)) (at2 (position u))"
    using thief_selects_nearest [OF searchState_simps(1,2), of "\<lambda>k. 0" "0.016"] av(3)
    by (auto simp: searchState_simps(5))
  have "t \<noteq> cerealAt 0 3 3 shelfA"
    using t(4) far av(3) by (auto simp: searchState_simps(5))
  moreover have "t \<noteq> cerealAt 1 0.4 0 shelfA"
    using t(2) av(2) by auto
  ultimately have "t = cerealAt 2 0.1 0 shelfB"
    using t(1) by (simp add: searchState_simps(5))
  then have a: "targetItem (thiefFrame (\<lambda>k. 0) 0.016 searchState) = Some (cerealAt 2 0.1 0 shelfB)"
    using t(3) by simp
  have e: "thiefState ?e = Searching" "targetItem ?e = None"
    by (simp_all add: searchState_simps)
  have "\<not> (\<exists>it \<in> set (items ?e). availableToThief ?e it)"
    by (simp add: availableToThief_def searchState_simps cerealAt_simps)
  then have b: "thiefState (thiefFrame (\<lambda>k. 0) 0.016 ?e) = Escaping"
    using thief_selects_nearest [OF e, of "\<lambda>k. 0" "0.016"] by blast
  show ?thesis
    using searchState_simps(1,2) a b by blast
qed

text \<open>
  Claim C3. Let the thief, searching, holding nothing, have as target an item \<open>t\<close> that is
  not on a shelf, that the player does not hold, and that is at a planar distance below
  0.5; let the stolen count not be negative. In the next frame the thief steals \<open>t\<close>: it
  holds \<open>t\<close>, the stolen count has grown by one, and the entries with the id of \<open>t\<close> are
  gone from the collection (which is seeded anew if this empties it). If the thief then
  holds an item after each of any further events \<open>evs\<close>, it still holds \<open>t\<close>; and if
  the player is then at a planar distance below 0.7 of the thief, the next frame appends
  \<open>t\<close> to the collection, at the thief's position and with \<open>onShelf = False\<close>, the thief
  holds nothing, and the stolen count is what it was before the theft.
\<close>

theorem theft_recovery_round_trip:
  assumes "thiefState s = Searching" and "targetItem s = Some t" and "thiefHoldingItem s = None"
    and "\<not> onShelf t"
    and "case playerHoldingItem s of None \<Rightarrow> True | Some held \<Rightarrow> item_id held \<noteq> item_id t"
    and "planarDistance (th_position s) (at0 (position t)) (at2 (position t)) < 0.5"
    and "0 \<le> stolenItems s"
    and "s1 = step rnd (Frame keys1 camera1 delta1) s"
    and "thiefKeepsHolding rnd evs s1"
    and "s2 = run rnd evs s1"
    and "planarDistance (th_position s2) (at0 (ch_position s2)) (at2 (ch_position s2)) < 0.7"
    and "s3 = step rnd (Frame keys3 camera3 delta3) s2"
  shows "thiefHoldingItem s1 = Some t \<and>
         stolenItems s1 = stolenItems s + 1 \<and>
         (filter (\<lambda>it. item_id it \<noteq> item_id t) (items s) \<noteq> [] \<longrightarrow>
            items s1 = filter (\<lambda>it. item_id it \<noteq> item_id t) (items s)) \<and>
         thiefHoldingItem s2 = Some t \<and>
         items s3 = items s2 @ [t\<lparr>position := th_position s2\<rparr>] \<and>
         \<not> onShelf (t\<lparr>position := th_position s2\<rparr>) \<and>
         thiefHoldingItem s3 = None \<and>
         stolenItems s3 = stolenItems s"
proof -
  let ?c = "characterFrame keys1 camera1 delta1 s"
  have held: "case playerHoldingItem ?c of None \<Rightarrow> True
              | Some held \<Rightarrow> item_id held \<noteq> item_id t"
    using assms(5) characterFrame_held_id [of keys1 camera1 delta1 s]
    by (auto split: option.splits)
  have c: "thiefState ?c = Searching" "targetItem ?c = Some t" "thiefHoldingItem ?c = None"
    "planarDistance (th_position ?c) (at0 (position t)) (at2 (position t)) < 0.5"
    using assms(1,2,3,6) by (simp_all add: characterFrame_thief)
  note steal = thiefFrame_steal [OF c(1,2,3) held c(4), of rnd delta1]
  have s1: "thiefHoldingItem s1 = Some t" "stolenItems s1 = stolenItems s + 1"
    "thiefState s1 = Escaping"
    using steal by (simp_all add: assms(8) step_def runEffects_thief characterFrame_thief)
  have items1: "filter (\<lambda>it. item_id it \<noteq> item_id t) (items s) \<noteq> [] \<longrightarrow>
      items s1 = filter (\<lambda>it. item_id it \<noteq> item_id t) (items s)"
    using steal(1) by (simp add: assms(8) step_def runEffects_items characterFrame_items)
  have s2: "thiefHoldingItem s2 = Some t" "stolenItems s2 = stolenItems s + 1"
    "thiefState s2 = Escaping"
    using run_escaping_keeps [OF s1(3) s1(1) assms(9)] s1(2) by (simp_all add: assms(10))
  have "gs_characterPosition s1 = Some (ch_position s1)"
    unfolding assms(8) by (rule step_synced)
  then have sync: "gs_characterPosition s2 = Some (ch_position s2)"
    unfolding assms(10) by (rule run_synced)
  let ?d = "characterFrame keys3 camera3 delta3 s2"
  have d: "thiefState ?d = Escaping" "thiefHoldingItem ?d = Some t"
    "gs_characterPosition ?d = Some (ch_position s2)"
    "planarDistance (th_position ?d) (at0 (ch_position s2)) (at2 (ch_position s2)) < 0.7"
    using s2 sync assms(11) by (simp_all add: characterFrame_thief)
  note cap = thiefFrame_escaping_capture [OF d, of rnd delta3]
  have s3: "items s3 = items s2 @ [t\<lparr>position := th_position s2\<rparr>]"
    "thiefHoldingItem s3 = None" "stolenItems s3 = stolenItems s"
    using cap s2(2) assms(7)
    by (simp_all add: assms(12) step_def runEffects_thief runEffects_items characterFrame_thief
        characterFrame_items)
  show ?thesis
    using s1 items1 s2 s3 assms(4) by simp
qed

text \<open>
  In \<open>theftState\<close> the thief stands 0.3 from its target, item 1, and 0.3 from the player.
  It steals the item in the first frame and moves to \<open>x = 0.325\<close>; a timer event passes;
  the second frame is the capture.
\<close>

theorem theft_recovery_round_trip_witness:
  "thiefState theftState = Searching \<and>
   targetItem theftState = Some (cerealAt 1 0.6 0 shelfA) \<and>
   thiefHoldingItem theftState = None \<and>
   thiefKeepsHolding (\<lambda>k. 0) [PlacingGuardTimeout] (step (\<lambda>k. 0) idleFrame theftState) \<and>
   stolenItems (step (\<lambda>k. 0) idleFrame theftState) = 1 \<and>
   items (step (\<lambda>k. 0) idleFrame theftState) = [cerealAt 0 3 3 shelfA] \<and>
   items (step (\<lambda>k. 0) idleFrame
            (run (\<lambda>k. 0) [PlacingGuardTimeout] (step (\<lambda>k. 0) idleFrame theftState))) =
     [cerealAt 0 3 3 shelfA, (cerealAt 1 0.6 0 shelfA)\<lparr>position := (0.325, 0.15, 0)\<rparr>] \<and>
   stolenItems (step (\<lambda>k. 0) idleFrame
            (run (\<lambda>k. 0) [PlacingGuardTimeout] (step (\<lambda>k. 0) idleFrame theftState))) = 0"
proof -
  let ?t = "cerealAt 1 0.6 0 shelfA"
  let ?s1 = "step (\<lambda>k. 0) idleFrame theftState"
  let ?s2 = "run (\<lambda>k. 0) [PlacingGuardTimeout] ?s1"
  let ?s3 = "step (\<lambda>k. 0) idleFrame ?s2"
  let ?c = "characterFrame (\<lambda>key. False) (0, 5) 0.016 theftState"
  have h4: "\<not> onShelf ?t"
    by (simp add: cerealAt_simps)
  have h5: "case playerHoldingItem theftState of None \<Rightarrow> True
            | Some held \<Rightarrow> item_id held \<noteq> item_id ?t"
    by (simp add: theftState_simps)
  have h6: "planarDistance (th_position theftState) (at0 (position ?t)) (at2 (position ?t)) < 0.5"
    by (simp add: theftState_simps cerealAt_simps planarDistance_def sqrt_eval)
  have h7: "0 \<le> stolenItems theftState"
    by (simp add: theftState_simps)
  have e1: "?s1 = step (\<lambda>k. 0) (Frame (\<lambda>key. False) (0, 5) 0.016) theftState"
    by (simp add: idleFrame_def)
  have e3: "?s3 = step (\<lambda>k. 0) (Frame (\<lambda>key. False) (0, 5) 0.016) ?s2"
    by (simp add: idleFrame_def)
  have c: "thiefState ?c = Searching" "targetItem ?c = Some ?t" "thiefHoldingItem ?c = None"
    "case playerHoldingItem ?c of None \<Rightarrow> True | Some held \<Rightarrow> item_id held \<noteq> item_id ?t"
    "planarDistance (th_position ?c) (at0 (position ?t)) (at2 (position ?t)) < 0.5"
    using h6 by (simp_all add: characterFrame_thief characterFrame_held_none theftState_simps)
  have hold1: "thiefHoldingItem ?s1 = Some ?t"
    using thiefFrame_steal(3) [OF c, of "\<lambda>k. 0" "0.016"]
    by (simp add: idleFrame_def step_def runEffects_thief)
  have pos1: "th_position ?s1 = (0.325, 0.15, 0)"
  proof -
    have "thiefFrame (\<lambda>k. 0) 0.016 ?c =
        thiefMove ?c (thiefSearching ?c (captureCheck ?c
          (?c\<lparr>th_walkingTime := th_walkingTime ?c + 0.016 * 12\<rparr>)))"
      using c(1,2) by (simp add: thiefFrame_searching characterFrame_held_none theftState_simps)
    moreover have "th_position (thiefMove ?c
        (thiefSearching ?c (captureCheck ?c
          (?c\<lparr>th_walkingTime := th_walkingTime ?c + 0.016 * 12\<rparr>)))) = (0.325, 0.15, 0)"
      by (subst thiefMove_along_x)
         (simp_all add: characterFrame_thief theftState_simps thiefSpeed_def)
    ultimately show ?thesis
      by (simp add: idleFrame_def step_def runEffects_thief)
  qed
  have chpos1: "ch_position ?s1 = (0, 0.15, 0)"
    by (simp add: idleFrame_def step_def runEffects_player thiefFrame_player
        characterFrame_position frameMoving_def theftState_simps)
  have s2: "?s2 = runEffects (\<lambda>k. 0) (placingGuardTimeout ?s1)"
    by (simp add: step_def)
  have h9: "thiefKeepsHolding (\<lambda>k. 0) [PlacingGuardTimeout] ?s1"
    using hold1 by (simp add: step_def runEffects_thief placingGuardTimeout_def)
  have p2: "th_position ?s2 = (0.325, 0.15, 0)" "ch_position ?s2 = (0, 0.15, 0)"
    unfolding s2
    by (simp_all add: runEffects_thief runEffects_player placingGuardTimeout_def pos1 chpos1)
  have h11: "planarDistance (th_position ?s2) (at0 (ch_position ?s2)) (at2 (ch_position ?s2)) < 0.7"
    unfolding p2 by (simp add: planarDistance_def sqrt_eval)
  note rt = theft_recovery_round_trip [OF theftState_simps(1,2,3) h4 h5 h6 h7 e1 h9 refl h11 e3]
  have f: "filter (\<lambda>it. item_id it \<noteq> item_id ?t) (items theftState) = [cerealAt 0 3 3 shelfA]"
    by (simp add: theftState_simps cerealAt_simps)
  have a: "stolenItems ?s1 = 1" "items ?s1 = [cerealAt 0 3 3 shelfA]"
    using rt f by (simp_all add: theftState_simps)
  have i2: "items ?s2 = [cerealAt 0 3 3 shelfA]"
    unfolding s2 using a(2) by (simp add: runEffects_items placingGuardTimeout_def)
  have b: "items ?s3 =
      [cerealAt 0 3 3 shelfA, ?t\<lparr>position := (0.325, 0.15, 0)\<rparr>]" "stolenItems ?s3 = 0"
    using rt unfolding i2 p2 by (simp_all add: theftState_simps)
  show ?thesis
    using theftState_simps(1,2,3) h9 a b by blast
qed

subsection \<open>Mutual exclusion\<close>

text \<open>
  The two mechanisms of mutual exclusion hold in every frame. An item that the thief
  comes to hold in a frame does not have the id of the item the player holds; and when
  the player holds the item the searching thief has as target, the target is dropped.
\<close>

lemma thief_never_steals_held:
  assumes "playerHoldingItem s = Some held"
    and "thiefHoldingItem (thiefFrame rnd delta s) = Some t"
    and "thiefHoldingItem s \<noteq> Some t"
  shows "item_id t \<noteq> item_id held"
proof -
  define s0 where "s0 = (case (targetItem s, playerHoldingItem s) of
          (Some target, Some held) \<Rightarrow>
            if item_id held = item_id target \<and> thiefState s = Searching
            then s\<lparr>th_walkingTime := th_walkingTime s + delta * 12, targetItem := None\<rparr>
            else s\<lparr>th_walkingTime := th_walkingTime s + delta * 12\<rparr>
        | _ \<Rightarrow> s\<lparr>th_walkingTime := th_walkingTime s + delta * 12\<rparr>)"
  have h0: "thiefHoldingItem s0 = thiefHoldingItem s"
    by (simp add: s0_def split: option.splits)
  have fr: "thiefHoldingItem (thiefFrame rnd delta s) =
      thiefHoldingItem (thiefSwitch rnd s (captureCheck s s0))"
    unfolding thiefFrame_unfold
    by (simp only: s0_def [symmetric] thiefUpdaters_holding thiefMove_target)
  note sw = thiefSwitch_holding [of rnd s "captureCheck s s0"]
  show ?thesis
    using sw
  proof (elim disjE exE conjE)
    assume "thiefHoldingItem (thiefSwitch rnd s (captureCheck s s0)) =
        thiefHoldingItem (captureCheck s s0)"
    then show ?thesis
      using captureCheck_holding [of s s0] h0 fr assms(2,3) by auto
  next
    assume "thiefHoldingItem (thiefSwitch rnd s (captureCheck s s0)) = None"
    then show ?thesis
      using fr assms(2) by simp
  next
    fix target
    assume "thiefHoldingItem (thiefSwitch rnd s (captureCheck s s0)) = Some target"
      and "case playerHoldingItem s of None \<Rightarrow> True
           | Some held \<Rightarrow> item_id held \<noteq> item_id target"
    then show ?thesis
      using fr assms(1,2) by simp
  qed
qed

lemma target_invalidated:
  assumes "thiefState s = Searching" and "targetItem s = Some t"
    and "playerHoldingItem s = Some held" and "item_id held = item_id t"
  shows "targetItem (thiefFrame rnd delta s) = None"
  using assms
  by (simp add: thiefFrame_searching thiefMove_target thiefSearching_def captureCheck_target)

text \<open>
  In every state reached from the initial state, no item has \<open>onShelf = True\<close>: not in the
  collection, not held by the player or the thief, not the thief's target. (Placing
  removes the item; no update of \<^verbatim>\<open>App.tsx\<close> sets the flag.)
\<close>

lemma never_on_shelf: "noneOnShelf (run rnd evs (initialState rnd))"
proof -
  have "noneOnShelf mountState"
    by (simp add: noneOnShelf_def mountState_def)
  then have "noneOnShelf (initialState rnd)"
    unfolding initialState_def by (rule noneOnShelf_runEffects)
  moreover have "noneOnShelf s \<Longrightarrow> noneOnShelf (run rnd evs s)" for s
    by (induction evs arbitrary: s) (simp_all add: noneOnShelf_step)
  ultimately show ?thesis
    by blast
qed

text \<open>
  Claim C9 says that the player and the thief never hold the same item id. The code
  breaks this through the seeding effect: when the thief steals the last item of the
  collection, the effect seeds the ids \<open>0 \<dots> 4\<close> again and sets \<open>nextItemId\<close> back to 5,
  while the thief still holds an item with one of these ids. In \<open>lastTheftState\<close> four
  of the five seeded items are stolen, the player stands idle at the origin, and the
  thief is 0.475 from its target, item 4, the last of the collection. After one frame
  (the theft, then the seeding, which with the draws \<open>reuseDraws\<close> puts the new item 4 at
  the origin) and the space key, the thief holds the old item 4 and the player the new
  item 4.
\<close>

theorem id_reuse_after_reseed:
  "thiefHoldingItem (run reuseDraws [idleFrame, Interact 0] lastTheftState) =
     Some (cerealAt 4 (- 4) (- 1.5) shelfA) \<and>
   playerHoldingItem (run reuseDraws [idleFrame, Interact 0] lastTheftState) =
     Some (cerealAt 4 0 0 shelfA) \<and>
   item_id (cerealAt 4 (- 4) (- 1.5) shelfA) = item_id (cerealAt 4 0 0 shelfA)"
proof -
  let ?t = "cerealAt 4 (- 4) (- 1.5) shelfA"
  let ?c = "characterFrame (\<lambda>key. False) (0, 5) 0.016 lastTheftState"
  let ?f = "thiefFrame reuseDraws 0.016 ?c"
  let ?s1 = "step reuseDraws idleFrame lastTheftState"
  have near: "planarDistance (th_position lastTheftState) (at0 (position ?t)) (at2 (position ?t))
      < 0.5"
    by (simp add: lastTheftState_simps cerealAt_simps planarDistance_def sqrt_eval)
  have c: "thiefState ?c = Searching" "targetItem ?c = Some ?t" "thiefHoldingItem ?c = None"
    "case playerHoldingItem ?c of None \<Rightarrow> True | Some held \<Rightarrow> item_id held \<noteq> item_id ?t"
    "planarDistance (th_position ?c) (at0 (position ?t)) (at2 (position ?t)) < 0.5"
    using near by (simp_all add: characterFrame_thief characterFrame_held_none lastTheftState_simps)
  note steal = thiefFrame_steal [OF c, of reuseDraws "0.016"]
  have f: "items ?f = []" "rngCalls ?f = 30" "thiefHoldingItem ?f = Some ?t"
    "playerHoldingItem ?f = None" "ch_position ?f = (0, 0.15, 0)"
  proof -
    show "items ?f = []"
      unfolding steal(1) by (simp add: characterFrame_items lastTheftState_simps)
    show "rngCalls ?f = 30"
      unfolding thiefFrame_rngCalls_searching [OF c(1)]
      by (simp add: characterFrame_thief lastTheftState_simps)
    show "thiefHoldingItem ?f = Some ?t"
      by (rule steal(3))
    show "playerHoldingItem ?f = None"
      unfolding thiefFrame_held by (simp add: characterFrame_held_none lastTheftState_simps)
    show "ch_position ?f = (0, 0.15, 0)"
      unfolding thiefFrame_player
      by (simp add: characterFrame_position frameMoving_def lastTheftState_simps)
  qed
  have s1: "?s1 = runEffects reuseDraws ?f"
    by (simp add: step_def idleFrame_def)
  have i1: "items ?s1 =
      [cerealAt 0 (- 4) (- 4) shelfA, cerealAt 1 (- 4) (- 4) shelfA, cerealAt 2 (- 4) (- 4) shelfA,
       cerealAt 3 (- 4) (- 4) shelfA, cerealAt 4 0 0 shelfA]"
    unfolding s1 using runEffects_reseed [OF f(1,2), of reuseDraws] by (simp add: seedLoop_reuse)
  have p1: "playerHoldingItem ?s1 = None" "ch_position ?s1 = (0, 0.15, 0)"
    "thiefHoldingItem ?s1 = Some ?t"
    unfolding s1 using f by (simp_all add: runEffects_thief runEffects_player)
  have pick: "handleItemInteraction reuseDraws 0 ?s1 =
      ?s1\<lparr>playerHoldingItem := Some (cerealAt 4 0 0 shelfA),
          gs_highlightedShelf := Some (targetShelf (cerealAt 4 0 0 shelfA))\<rparr>"
    unfolding handleItemInteraction_def p1 i1
    by (simp add: isNearItem_def cerealAt_simps sqrt_eval)
  have "run reuseDraws [idleFrame, Interact 0] lastTheftState =
      runEffects reuseDraws (handleItemInteraction reuseDraws 0 ?s1)"
    by (simp add: step_def)
  then show ?thesis
    unfolding pick by (simp add: runEffects_thief p1 cerealAt_simps)
qed

subsection \<open>A remark on exact arithmetic\<close>

text \<open>
  The thief walks from the door \<open>(-5.5, -1.5)\<close> to the entry point \<open>(-4.5, -1.5)\<close> in steps
  of 0.025; it has arrived below the distance 0.1 and moves above the distance 0.1. After
  36 steps the distance is exactly 0.1 in real arithmetic, where the thief neither
  arrives nor moves. With IEEE doubles the rounded distance after 36 steps is below 0.1
  and the thief arrives. So the statements above about the thief are about single frames
  and runs from a given state, not about what the real-valued model reaches from the
  initial state.
\<close>

lemma entering_walk_stops:
  assumes "thiefState s = Entering" and "th_position s = (- 4.6, 0.15, - 1.5)"
    and "th_targetPosition s = storeEntryPoint"
    and "gs_characterPosition s = Some cp"
    and "\<not> planarDistance (th_position s) (at0 cp) (at2 cp) < 0.7"
  shows "thiefState (thiefFrame rnd delta s) = Entering \<and>
         th_position (thiefFrame rnd delta s) = (- 4.6, 0.15, - 1.5) \<and>
         th_targetPosition (thiefFrame rnd delta s) = storeEntryPoint"
proof -
  have e: "storeEntryPoint = (- 4.5, 0.15, - 1.5)"
    by (simp add: storeEntryPoint_def th_offset_def th_size_def th_spacing_def)
  have stay: "thiefMove s acc = acc" for acc
    by (rule thiefMove_stay) (simp_all add: assms(2,3) e)
  have far: "captureCheck s acc = acc" for acc
    by (rule captureCheck_far [OF assms(4,5)])
  have sw: "thiefSwitch rnd s acc = acc\<lparr>th_targetPosition := storeEntryPoint\<rparr>" for acc
    using assms(1,2) by (simp add: thiefSwitch_def e Let_def)
  show ?thesis
    using assms(1,2)
    by (simp add: thiefFrame_unfold far sw stay thiefUpdaters_def split: option.splits)
qed

end
